theory Spec2Isabelle
  imports Complex_Main "HOL-Library.Char_ord" "HOL-Library.List_Lexorder"
    "HOL-Library.Product_Lexorder"
begin

section \<open>Python values used by the annotation script\<close>

text \<open>
  A Python float is a finite number, an infinity or NaN. Finite values are modelled
  as exact reals (no rounding, no overflow); the three special values are kept
  because the script tests for them (\<open>np.isfinite\<close>, \<open>math.isnan\<close>).
\<close>

datatype pyfloat = Fin real | PInf | NInf | NaN

text \<open>An exception is modelled by its message \<open>str(e)\<close>.\<close>

datatype py_exception = Exception string

fun str_of_exception :: "py_exception \<Rightarrow> string" where
  "str_of_exception (Exception msg) = msg"

definition and_then :: "py_exception + 'a \<Rightarrow> ('a \<Rightarrow> py_exception + 'b) \<Rightarrow> py_exception + 'b" where
  "and_then r f = (case r of Inl e \<Rightarrow> Inl e | Inr v \<Rightarrow> f v)"

fun isfinite :: "pyfloat \<Rightarrow> bool" where
  "isfinite (Fin v) = True"
| "isfinite PInf = False"
| "isfinite NInf = False"
| "isfinite NaN = False"

fun isnan :: "pyfloat \<Rightarrow> bool" where
  "isnan NaN = True"
| "isnan (Fin v) = False"
| "isnan PInf = False"
| "isnan NInf = False"

fun fneg :: "pyfloat \<Rightarrow> pyfloat" where
  "fneg (Fin v) = Fin (- v)"
| "fneg PInf = NInf"
| "fneg NInf = PInf"
| "fneg NaN = NaN"

fun fadd :: "pyfloat \<Rightarrow> pyfloat \<Rightarrow> pyfloat" where
  "fadd (Fin a) (Fin b) = Fin (a + b)"
| "fadd NaN y = NaN"
| "fadd x NaN = NaN"
| "fadd PInf NInf = NaN"
| "fadd NInf PInf = NaN"
| "fadd PInf y = PInf"
| "fadd x PInf = PInf"
| "fadd NInf y = NInf"
| "fadd x NInf = NInf"

definition fsub :: "pyfloat \<Rightarrow> pyfloat \<Rightarrow> pyfloat" where
  "fsub x y = fadd x (fneg y)"

text \<open>Division and multiplication by a positive finite constant (2.0, 60.0, 2).\<close>

fun fdiv_pos :: "pyfloat \<Rightarrow> real \<Rightarrow> pyfloat" where
  "fdiv_pos (Fin v) c = Fin (v / c)"
| "fdiv_pos x c = x"

fun fmul_pos :: "pyfloat \<Rightarrow> real \<Rightarrow> pyfloat" where
  "fmul_pos (Fin v) c = Fin (v * c)"
| "fmul_pos x c = x"

text \<open>\<open>x > c\<close> and \<open>x == 0\<close> for a float \<open>x\<close>: every comparison with NaN is false.\<close>

fun fgt :: "pyfloat \<Rightarrow> real \<Rightarrow> bool" where
  "fgt (Fin v) c = (c < v)"
| "fgt PInf c = True"
| "fgt NInf c = False"
| "fgt NaN c = False"

fun is_zero :: "pyfloat \<Rightarrow> bool" where
  "is_zero (Fin v) = (v = 0)"
| "is_zero x = False"

definition hypot_real :: "real \<Rightarrow> real \<Rightarrow> real" where
  "hypot_real x y = sqrt (x * x + y * y)"

text \<open>\<open>math.hypot\<close>: infinite as soon as one argument is, else NaN if one is.\<close>

fun hypot :: "pyfloat \<Rightarrow> pyfloat \<Rightarrow> pyfloat" where
  "hypot (Fin x) (Fin y) = Fin (hypot_real x y)"
| "hypot PInf y = PInf"
| "hypot NInf y = PInf"
| "hypot x PInf = PInf"
| "hypot x NInf = PInf"
| "hypot NaN y = NaN"
| "hypot x NaN = NaN"

text \<open>
  Python's \<open>round(x)\<close> on a float rounds to the nearest integer and a tie to the
  even neighbour.
\<close>

definition py_round :: "real \<Rightarrow> int" where
  "py_round x =
     (let f = \<lfloor>x\<rfloor>; d = x - of_int f
      in if d < 1 / 2 then f
         else if 1 / 2 < d then f + 1
         else if even f then f else f + 1)"

text \<open>\<open>int(round(x))\<close> raises on NaN (ValueError) and on an infinity (OverflowError).\<close>

fun int_round :: "pyfloat \<Rightarrow> py_exception + int" where
  "int_round (Fin v) = Inr (py_round v)"
| "int_round NaN = Inl (Exception ''cannot convert float NaN to integer'')"
| "int_round PInf = Inl (Exception ''cannot convert float infinity to integer'')"
| "int_round NInf = Inl (Exception ''cannot convert float infinity to integer'')"

subsection \<open>Strings\<close>

text \<open>
  Characters are code points below 256. \<open>str.strip()\<close> removes the white space
  of Python's \<open>str.isspace\<close> from both ends.
\<close>

definition isspace :: "char \<Rightarrow> bool" where
  "isspace c = (c \<in> set [CHR 0x09, CHR 0x0A, CHR 0x0B, CHR 0x0C, CHR 0x0D, CHR 0x1C,
     CHR 0x1D, CHR 0x1E, CHR 0x1F, CHR 0x20, CHR 0x85, CHR 0xA0])"

definition strip :: "string \<Rightarrow> string" where
  "strip s = rev (dropWhile isspace (rev (dropWhile isspace s)))"

definition is_alnum :: "char \<Rightarrow> bool" where
  "is_alnum c = ((CHR ''A'' \<le> c \<and> c \<le> CHR ''Z'') \<or> (CHR ''a'' \<le> c \<and> c \<le> CHR ''z'')
     \<or> (CHR ''0'' \<le> c \<and> c \<le> CHR ''9''))"

definition lower_char :: "char \<Rightarrow> char" where
  "lower_char c = (if CHR ''A'' \<le> c \<and> c \<le> CHR ''Z'' then char_of (of_char c + (32::nat)) else c)"

definition lower :: "string \<Rightarrow> string" where
  "lower s = map lower_char s"

definition digit_char :: "nat \<Rightarrow> char" where
  "digit_char d = ''0123456789'' ! (d mod 10)"

fun str_nat :: "nat \<Rightarrow> string" where
  "str_nat n = (if n < 10 then [digit_char n] else str_nat (n div 10) @ [digit_char n])"

text \<open>The format \<open>f"{i:02d}"\<close>: decimal, padded with zeros to two digits.\<close>

definition fmt_02d :: "nat \<Rightarrow> string" where
  "fmt_02d i = (let s = str_nat i in replicate (2 - length s) (CHR ''0'') @ s)"

text \<open>\<open>x.replace(' ', '')\<close>.\<close>

definition remove_spaces :: "string \<Rightarrow> string" where
  "remove_spaces s = filter (\<lambda>c. c \<noteq> CHR '' '') s"

section \<open>The catalog registry\<close>

record CatalogEntry =
  description :: "string option"
  color :: string
  selection_default :: bool
  checkbox_var :: "bool option"
  color_var :: "string option"

definition CatalogEntry_init :: "string option \<Rightarrow> string \<Rightarrow> bool \<Rightarrow> CatalogEntry" where
  "CatalogEntry_init d c s =
     \<lparr>description = d, color = c, selection_default = s, checkbox_var = None, color_var = None\<rparr>"

definition get_selected :: "CatalogEntry \<Rightarrow> bool" where
  "get_selected e = (case checkbox_var e of None \<Rightarrow> selection_default e | Some b \<Rightarrow> b)"

text \<open>A dict keeps its insertion order: the registry is an association list.\<close>

type_synonym catalogs = "(string \<times> CatalogEntry) list"

text \<open>\<open>self.catalogs\<close> as \<open>AnnotationsScriptInterface.__init__\<close> builds it.\<close>

definition registry :: catalogs where
  "registry =
    [(''M'', CatalogEntry_init (Some ''Messier Catalog'') ''#80ff80'' True),
     (''IC'', CatalogEntry_init (Some ''Index Catalogue'') ''#80ffff'' True),
     (''NGC'', CatalogEntry_init (Some ''New General Catalogue'') ''#ffffff'' True),
     (''MGC'', CatalogEntry_init (Some ''Millennium Galaxy Catalogue'') ''#30a500'' False),
     (''UGC'', CatalogEntry_init (Some ''Uppsala General Catalogue'') ''#3abed1'' False),
     (''MCG'', CatalogEntry_init (Some ''Morphological Catalogue of Galaxies'') ''#955ec2'' False),
     (''Mrk'', CatalogEntry_init (Some ''Markarian galaxies'') ''#fbbd70'' False),
     (''LEDA'', CatalogEntry_init (Some ''Lyon-Meudon Extragalactic Database'') ''#c29d94'' False),
     (''Z'', CatalogEntry_init
        (Some ''Zwicky Catalogue of galaxies and of clusters of galaxies'') ''#fb9795'' False),
     (''Gaia'', CatalogEntry_init (Some ''Gaia catalogues'') ''#c6aed8'' False),
     (''2MASX'', CatalogEntry_init
        (Some ''Two Micron All Sky Survey, Extended source catalogue'') ''#895447'' False),
     (''SDSS'', CatalogEntry_init (Some ''Sloan Digital Sky Survey'') ''#b2c5eb'' False),
     (''SDSSCGB'', CatalogEntry_init (Some ''SDSS DR6 Compact Group Catalogue B'') ''#b2c5eb'' False),
     (''UGCA'', CatalogEntry_init (Some ''Uppsala Selected non-UGC Galaxies'') ''#f5b3d3'' False),
     (''MASS'', CatalogEntry_init None ''#c8c8c8'' False),
     (''MFGC'', CatalogEntry_init None ''#b9c200'' False),
     (''2MFGC'', CatalogEntry_init (Some ''2MASS Flat Galaxy Catalog'') ''#d9df85'' False),
     (''FIRST'', CatalogEntry_init (Some ''FIRST Survey Catalogs'') ''#a3dae7'' False),
     (''2MASS'', CatalogEntry_init (Some ''Two Micron All Sky Survey'') ''#895447'' False)]"

text \<open>
  \<open>create_widgets\<close> (GUI mode only) gives every entry a checkbox variable set to its
  default and a colour variable; the mass-selection buttons set the checkboxes.
\<close>

definition create_widgets :: "catalogs \<Rightarrow> catalogs" where
  "create_widgets cs =
     map (\<lambda>(key, e). (key, e\<lparr>checkbox_var := Some (selection_default e),
                               color_var := Some (color e)\<rparr>)) cs"

definition select_all :: "catalogs \<Rightarrow> catalogs" where
  "select_all cs = map (\<lambda>(key, e). (key, e\<lparr>checkbox_var := Some True\<rparr>)) cs"

definition select_none :: "catalogs \<Rightarrow> catalogs" where
  "select_none cs = map (\<lambda>(key, e). (key, e\<lparr>checkbox_var := Some False\<rparr>)) cs"

definition select_default :: "catalogs \<Rightarrow> catalogs" where
  "select_default cs = map (\<lambda>(key, e). (key, e\<lparr>checkbox_var := Some (selection_default e)\<rparr>)) cs"

section \<open>Catalog rows and the host application\<close>

text \<open>
  One row of the merged data frame: the columns the script reads. A missing angular
  size is NaN, as pandas stores it.
\<close>

record row =
  main_id :: string
  ra :: pyfloat
  dec :: pyfloat
  TYPE' :: string
  galdim_majaxis :: pyfloat

text \<open>
  A cell of a catalog file as \<open>pd.read_csv\<close> returns it: missing, a number, or a
  text that pandas cannot read as a number.
\<close>

datatype cell = NA | Numeric pyfloat | Other string

record csv_record =
  csv_name :: string
  csv_ra :: cell
  csv_dec :: cell
  csv_diameter :: cell

record csv_frame =
  columns :: "string list"
  records :: "csv_record list"

text \<open>A row of the table the remote query returns, before its type is derived.\<close>

record simbad_entry =
  sb_main_id :: string
  sb_ra :: pyfloat
  sb_dec :: pyfloat
  sb_galdim_majaxis :: pyfloat

text \<open>
  The external collaborators, as parameters: the host's projector (\<open>radec2pix\<close>,
  \<open>pix2radec\<close>), the file system (\<open>read_csv\<close> is \<open>None\<close> where
  \<open>os.path.exists\<close> is false, \<open>isfile\<close>, \<open>readlines\<close>, \<open>path_join\<close>,
  \<open>splitext\<close>), Python's \<open>float\<close> on a string, the host's configuration
  directory, and the remote region query. \<open>query_region\<close> stands for the query,
  the sort of its table by angular size and the conversion to a data frame
  (center, radius in degrees, minimum size in arcminutes).
\<close>

record host =
  radec2pix :: "pyfloat \<Rightarrow> pyfloat \<Rightarrow> py_exception + pyfloat \<times> pyfloat"
  pix2radec :: "real \<Rightarrow> real \<Rightarrow> py_exception + real \<times> real"
  read_csv :: "string \<Rightarrow> (py_exception + csv_frame) option"
  query_region :: "real \<times> real \<Rightarrow> real \<Rightarrow> real \<Rightarrow> py_exception + simbad_entry list"
  path_join :: "string \<Rightarrow> string \<Rightarrow> string"
  splitext :: "string \<Rightarrow> string \<times> string"
  get_siril_configdir :: string
  isfile :: "string \<Rightarrow> bool"
  readlines :: "string \<Rightarrow> py_exception + string list"
  float_of_str :: "string \<Rightarrow> py_exception + pyfloat"

subsection \<open>Loading the built-in catalogs\<close>

definition isna :: "cell \<Rightarrow> bool" where
  "isna c = (c = NA \<or> c = Numeric NaN)"

text \<open>\<open>pd.to_numeric(..., errors='coerce')\<close>.\<close>

fun to_numeric :: "cell \<Rightarrow> pyfloat" where
  "to_numeric NA = NaN"
| "to_numeric (Numeric v) = v"
| "to_numeric (Other s) = NaN"

definition load_builtin_catalog :: "host \<Rightarrow> string \<Rightarrow> string \<Rightarrow> row list" where
  "load_builtin_catalog h filepath catalog_type =
     (case read_csv h filepath of
        None \<Rightarrow> []
      | Some (Inl e) \<Rightarrow> []
      | Some (Inr df) \<Rightarrow>
          if \<not> set [''name'', ''ra'', ''dec''] \<subseteq> set (columns df) then []
          else map (\<lambda>r. \<lparr>main_id = csv_name r, ra = to_numeric (csv_ra r),
                          dec = to_numeric (csv_dec r), TYPE' = catalog_type,
                          galdim_majaxis = (if ''diameter'' \<in> set (columns df)
                                            then to_numeric (csv_diameter r) else NaN)\<rparr>)
                 (filter (\<lambda>r. \<not> isna (csv_ra r) \<and> \<not> isna (csv_dec r)) (records df)))"

definition CATALOG_DIR :: string where
  "CATALOG_DIR = ''C:/Program Files/Siril/share/siril/catalogue''"

definition catalog_files :: "host \<Rightarrow> (string \<times> string) list" where
  "catalog_files h =
     [(''M'', path_join h CATALOG_DIR ''messier.csv''),
      (''NGC'', path_join h CATALOG_DIR ''ngc.csv''),
      (''IC'', path_join h CATALOG_DIR ''ic.csv'')]"

text \<open>Step 1: one frame per built-in catalog that is registered and selected.\<close>

definition local_frames :: "host \<Rightarrow> catalogs \<Rightarrow> row list list" where
  "local_frames h cs =
     map (\<lambda>(key, filename). load_builtin_catalog h filename key)
       (filter (\<lambda>(key, filename). case map_of cs key of None \<Rightarrow> False | Some e \<Rightarrow> get_selected e)
          (catalog_files h))"

subsection \<open>The remote query\<close>

definition EXCLUDED_SOURCES :: "string list" where
  "EXCLUDED_SOURCES = [''M'', ''NGC'', ''IC'']"

definition simbad_catalogs :: "catalogs \<Rightarrow> string list" where
  "simbad_catalogs cs =
     map fst (filter (\<lambda>(key, e). key \<notin> set EXCLUDED_SOURCES \<and> get_selected e) cs)"

definition minsize_pixels :: real where
  "minsize_pixels = 5"

record query_criteria =
  radius_deg :: real
  pixsize_arcmin :: real
  minsize_arcmin :: real

definition simbad_criteria :: "host \<Rightarrow> real \<times> real \<Rightarrow> py_exception + query_criteria" where
  "simbad_criteria h center =
     (case center of (center_ra, center_dec) \<Rightarrow>
      and_then (pix2radec h 0 0) (\<lambda>(TL_ra, TL_dec).
      and_then (pix2radec h 1 1) (\<lambda>(pixsize_ra, pixsize_dec).
        let pixsize = 60 * max \<bar>pixsize_ra - TL_ra\<bar> \<bar>pixsize_dec - TL_dec\<bar>
        in Inr \<lparr>radius_deg = max \<bar>center_ra - TL_ra\<bar> \<bar>center_dec - TL_dec\<bar>,
                pixsize_arcmin = pixsize,
                minsize_arcmin = minsize_pixels * pixsize\<rparr>)))"

text \<open>The type of a remote row: the leading run of ASCII letters and digits of its name.\<close>

definition derive_type :: "string \<Rightarrow> string" where
  "derive_type x = (let m = takeWhile is_alnum x in if m = [] then ''Unknown'' else m)"

definition simbad_row :: "simbad_entry \<Rightarrow> row" where
  "simbad_row e = \<lparr>main_id = sb_main_id e, ra = sb_ra e, dec = sb_dec e,
     TYPE' = derive_type (sb_main_id e), galdim_majaxis = sb_galdim_majaxis e\<rparr>"

definition simbad_frame :: "host \<Rightarrow> real \<times> real \<Rightarrow> py_exception + row list" where
  "simbad_frame h center =
     and_then (simbad_criteria h center) (\<lambda>q.
     and_then (query_region h center (radius_deg q) (minsize_arcmin q)) (\<lambda>result.
       Inr (filter (\<lambda>r. TYPE' r \<notin> set (map fst (catalog_files h))) (map simbad_row result))))"

text \<open>Steps 1 and 2: the list \<open>df_list\<close>, or the exception of the remote query.\<close>

definition load_frames :: "host \<Rightarrow> catalogs \<Rightarrow> real \<times> real \<Rightarrow> py_exception + row list list" where
  "load_frames h cs center =
     (if simbad_catalogs cs \<noteq> []
      then and_then (simbad_frame h center) (\<lambda>df_simbad. Inr (local_frames h cs @ [df_simbad]))
      else Inr (local_frames h cs))"

section \<open>Projection, bounds, type filter and deduplication\<close>

definition min_patch_size :: "int \<Rightarrow> int \<Rightarrow> int" where
  "min_patch_size W H = py_round (real_of_int (max W H) / 100)"

type_synonym wcs_error_entry = "string \<times> pyfloat \<times> pyfloat \<times> string"

text \<open>
  \<open>safe_radec2pix\<close> returns the pixel position of a row and the entries it appends
  to \<open>wcs_error_entries\<close>.
\<close>

definition safe_radec2pix :: "host \<Rightarrow> row \<Rightarrow> (pyfloat \<times> pyfloat) \<times> wcs_error_entry list" where
  "safe_radec2pix h r =
     (case radec2pix h (ra r) (dec r) of
        Inl e \<Rightarrow> ((NaN, NaN), [(main_id r, ra r, dec r, str_of_exception e)])
      | Inr (x, y) \<Rightarrow>
          if \<not> (isfinite x \<and> isfinite y)
          then ((NaN, NaN), [(main_id r, ra r, dec r, ''radec2pix returned non-finite values'')])
          else ((x, y), []))"

definition wcs_error_entries :: "host \<Rightarrow> row list \<Rightarrow> wcs_error_entry list" where
  "wcs_error_entries h df = concat (map (\<lambda>r. snd (safe_radec2pix h r)) df)"

text \<open>
  A row with its pixel columns. The script keeps the rows whose position is finite and
  then rounds it (\<open>px\<close>, \<open>py\<close>); the two steps are one here, so that the rounding is
  only ever applied to finite values, as in the script.
\<close>

record pixel_row =
  src :: row
  pixel_x :: real
  pixel_y :: real
  px :: int
  py :: int

definition to_pixel_row :: "host \<Rightarrow> row \<Rightarrow> pixel_row option" where
  "to_pixel_row h r =
     (case fst (safe_radec2pix h r) of
        (Fin x, Fin y) \<Rightarrow>
          Some \<lparr>src = r, pixel_x = x, pixel_y = y, px = py_round x, py = py_round y\<rparr>
      | _ \<Rightarrow> None)"

definition finite_rows :: "host \<Rightarrow> row list \<Rightarrow> pixel_row list" where
  "finite_rows h df = List.map_filter (to_pixel_row h) df"

definition in_bounds :: "int \<Rightarrow> int \<Rightarrow> int \<Rightarrow> pixel_row \<Rightarrow> bool" where
  "in_bounds W H m p = (m < px p \<and> m < py p \<and> px p < W - m \<and> py p < H - m)"

definition bounds_filter :: "int \<Rightarrow> int \<Rightarrow> pixel_row list \<Rightarrow> pixel_row list" where
  "bounds_filter W H df = filter (in_bounds W H (min_patch_size W H)) df"

definition filter_types :: "catalogs \<Rightarrow> string list" where
  "filter_types cs = map fst (filter (\<lambda>(key, e). get_selected e) cs)"

definition type_filter :: "catalogs \<Rightarrow> pixel_row list \<Rightarrow> pixel_row list" where
  "type_filter cs df = filter (\<lambda>p. TYPE' (src p) \<in> set (filter_types cs)) df"

text \<open>
  \<open>DataFrame.drop_duplicates(subset=...)\<close> with its default \<open>keep='first'\<close>: a row
  stays unless an earlier row has the same key.
\<close>

fun drop_duplicates :: "('a \<Rightarrow> 'k) \<Rightarrow> 'a list \<Rightarrow> 'a list" where
  "drop_duplicates key [] = []"
| "drop_duplicates key (x # xs) = x # filter (\<lambda>y. key y \<noteq> key x) (drop_duplicates key xs)"

definition pixel_key :: "pixel_row \<Rightarrow> int \<times> int" where
  "pixel_key p = (px p, py p)"

definition working_set :: "host \<Rightarrow> catalogs \<Rightarrow> int \<Rightarrow> int \<Rightarrow> row list \<Rightarrow> pixel_row list" where
  "working_set h cs W H df =
     drop_duplicates pixel_key (type_filter cs (bounds_filter W H (finite_rows h df)))"

section \<open>Sort order\<close>

text \<open>
  The sort key of a type is the two-digit position of its catalog in the registry
  (\<open>Series.replace\<close> leaves a type that is no key as it is); names lose their blanks;
  the rows are sorted by key and then by name.
\<close>

definition rep_dic :: "catalogs \<Rightarrow> (string \<times> string) list" where
  "rep_dic cs = zip (map fst cs) (map fmt_02d [0 ..< length cs])"

definition sorting :: "catalogs \<Rightarrow> string \<Rightarrow> string" where
  "sorting cs t = (case map_of (rep_dic cs) t of None \<Rightarrow> t | Some k \<Rightarrow> k)"

definition strip_main_id :: "pixel_row \<Rightarrow> pixel_row" where
  "strip_main_id p = p\<lparr>src := (src p)\<lparr>main_id := remove_spaces (main_id (src p))\<rparr>\<rparr>"

definition sort_rows :: "catalogs \<Rightarrow> pixel_row list \<Rightarrow> pixel_row list" where
  "sort_rows cs dfi =
     sort_key (\<lambda>p. (sorting cs (TYPE' (src p)), main_id (src p))) (map strip_main_id dfi)"

section \<open>Patch size\<close>

text \<open>The angular size of a row, with the fallback for a missing one.\<close>

definition angular_size_of :: "row \<Rightarrow> pyfloat" where
  "angular_size_of r =
     (if isnan (galdim_majaxis r)
      then (if TYPE' r = ''M''
            then (if main_id r = ''M8'' then Fin 90
                  else if main_id r = ''M40'' then Fin (86 / 100)
                  else if main_id r = ''M43'' then Fin 20
                  else if main_id r = ''M78'' then Fin 8
                  else if main_id r = ''M82'' then Fin (112 / 10)
                  else Fin 0)
            else Fin 0)
      else galdim_majaxis r)"

text \<open>
  Library behaviour (astropy): \<open>SkyCoord(ra=a * u.deg, dec=d * u.deg)\<close> wraps the
  right ascension into \<open>[0, 360)\<close> and raises ValueError for a declination outside
  \<open>[-90, 90]\<close>; the result is the pair \<open>(coord.ra.deg, coord.dec.deg)\<close>.
\<close>

fun wrap_longitude :: "pyfloat \<Rightarrow> pyfloat" where
  "wrap_longitude (Fin a) = Fin (a - 360 * of_int \<lfloor>a / 360\<rfloor>)"
| "wrap_longitude x = NaN"

fun check_latitude :: "pyfloat \<Rightarrow> py_exception + pyfloat" where
  "check_latitude (Fin d) =
     (if d < - 90 \<or> 90 < d
      then Inl (Exception ''Latitude angle(s) must be within -90 deg <= angle <= 90 deg'')
      else Inr (Fin d))"
| "check_latitude NaN = Inr NaN"
| "check_latitude x = Inl (Exception ''Latitude angle(s) must be within -90 deg <= angle <= 90 deg'')"

definition SkyCoord :: "pyfloat \<Rightarrow> pyfloat \<Rightarrow> py_exception + pyfloat \<times> pyfloat" where
  "SkyCoord a d = and_then (check_latitude d) (\<lambda>lat. Inr (wrap_longitude a, lat))"

text \<open>
  The body of the \<open>try\<close>: four sky points at half the angular size from the row,
  their pixels, the two pixel distances, their mean, and the rounded double of it.
\<close>

definition wcs_patch :: "host \<Rightarrow> row \<Rightarrow> pyfloat \<Rightarrow> py_exception + int \<times> real" where
  "wcs_patch h r angular_size =
     (let half_diam_deg = fdiv_pos (fdiv_pos angular_size 2) 60 in
      and_then (SkyCoord (ra r) (fadd (dec r) half_diam_deg)) (\<lambda>coord_top.
      and_then (SkyCoord (ra r) (fsub (dec r) half_diam_deg)) (\<lambda>coord_bottom.
      and_then (SkyCoord (fsub (ra r) half_diam_deg) (dec r)) (\<lambda>coord_left.
      and_then (SkyCoord (fadd (ra r) half_diam_deg) (dec r)) (\<lambda>coord_right.
      and_then (radec2pix h (fst coord_top) (snd coord_top)) (\<lambda>(px_top, py_top).
      and_then (radec2pix h (fst coord_bottom) (snd coord_bottom)) (\<lambda>(px_bottom, py_bottom).
      and_then (radec2pix h (fst coord_left) (snd coord_left)) (\<lambda>(px_left, py_left).
      and_then (radec2pix h (fst coord_right) (snd coord_right)) (\<lambda>(px_right, py_right).
        let d_dec = hypot (fsub px_top px_bottom) (fsub py_top py_bottom);
            d_ra = hypot (fsub px_right px_left) (fsub py_right py_left);
            patch_diameter_pix = fdiv_pos (fadd d_dec d_ra) 2
        in and_then (int_round (fmul_pos patch_diameter_pix 2)) (\<lambda>patch_size.
             case patch_diameter_pix of
               Fin v \<Rightarrow> Inr (patch_size, v)
             | _ \<Rightarrow> Inl (Exception ''cannot convert float to integer'')))))))))))"

text \<open>
  Lines 351 to 384: the patch size before the type-dependent override and before the
  clipping, the diameter in pixels, and the message logged when the estimate failed.
\<close>

definition patch_estimate :: "host \<Rightarrow> int \<Rightarrow> row \<Rightarrow> pyfloat \<Rightarrow> int \<times> real \<times> string option" where
  "patch_estimate h m r angular_size =
     (if is_zero angular_size then (m, real_of_int m, None)
      else case wcs_patch h r angular_size of
             Inr (patch_size, patch_diameter_pix) \<Rightarrow> (max m patch_size, patch_diameter_pix, None)
           | Inl e \<Rightarrow> (m, real_of_int m,
               Some (main_id r @ '': WCS radius estimation failed: '' @ str_of_exception e)))"

record style =
  fontsize :: nat
  style_color :: string
  patch_size :: int
  patch_diameter_pix :: real

text \<open>The type-dependent style: the first branch that applies, as the \<open>elif\<close> chain.\<close>

definition type_style :: "string \<Rightarrow> int \<Rightarrow> row \<Rightarrow> string \<Rightarrow> int \<Rightarrow> real \<Rightarrow> style" where
  "type_style main_object m r c ps d =
     (if main_id r = main_object
        then \<lparr>fontsize = 20, style_color = ''white'', patch_size = ps, patch_diameter_pix = d\<rparr>
      else if TYPE' r = ''M''
        then \<lparr>fontsize = 18, style_color = c, patch_size = ps, patch_diameter_pix = d\<rparr>
      else if TYPE' r = ''NGC''
        then \<lparr>fontsize = 18, style_color = c, patch_size = ps, patch_diameter_pix = d\<rparr>
      else if TYPE' r = ''SAI''
        then \<lparr>fontsize = 16, style_color = c, patch_size = ps, patch_diameter_pix = d\<rparr>
      else if TYPE' r = ''UGC''
        then \<lparr>fontsize = 16, style_color = c, patch_size = ps, patch_diameter_pix = d\<rparr>
      else if TYPE' r = ''MCG''
        then \<lparr>fontsize = 16, style_color = c, patch_size = ps, patch_diameter_pix = d\<rparr>
      else if TYPE' r = ''IC''
        then \<lparr>fontsize = 16, style_color = c, patch_size = ps, patch_diameter_pix = d\<rparr>
      else if TYPE' r = ''LEDA''
        then (if \<not> isnan (galdim_majaxis r) \<and> fgt (galdim_majaxis r) (18 / 10)
              then \<lparr>fontsize = 12, style_color = c, patch_size = m,
                     patch_diameter_pix = real_of_int m\<rparr>
              else \<lparr>fontsize = 12, style_color = c, patch_size = ps, patch_diameter_pix = d\<rparr>)
      else \<lparr>fontsize = 12, style_color = c, patch_size = ps, patch_diameter_pix = d\<rparr>)"

definition catalog_color :: "catalogs \<Rightarrow> string \<Rightarrow> string" where
  "catalog_color cs t = (case map_of cs t of None \<Rightarrow> ''#ff0000'' | Some e \<Rightarrow> color e)"

text \<open>Patch size and style of one row of the sorted working set.\<close>

definition row_style :: "host \<Rightarrow> catalogs \<Rightarrow> string \<Rightarrow> int \<Rightarrow> row \<Rightarrow> style" where
  "row_style h cs main_object m r =
     (case patch_estimate h m r (angular_size_of r) of
        (ps, d, msg) \<Rightarrow> type_style main_object m r (catalog_color cs (TYPE' r)) ps d)"

record annotation =
  ann_row :: pixel_row
  ann_style :: style
  annotation_text :: string
  clipped :: int
  x1 :: int
  x2 :: int
  y1 :: int
  y2 :: int

definition annotate_row :: "host \<Rightarrow> catalogs \<Rightarrow> string \<Rightarrow> int \<Rightarrow> int \<Rightarrow> nat \<Rightarrow> pixel_row \<Rightarrow> annotation" where
  "annotate_row h cs main_object W H i p =
     (let st = row_style h cs main_object (min_patch_size W H) (src p);
          label = (if 200 < patch_size st then str_nat (i + 1) @ '': '' @ main_id (src p)
                   else str_nat (i + 1));
          c = min (min (min (min (patch_size st) ((W - px p) * 2)) ((H - py p) * 2)) (px p * 2))
                (py p * 2)
      in \<lparr>ann_row = p, ann_style = st, annotation_text = label, clipped = c,
           x1 = px p - c div 2, x2 = px p + c div 2,
           y1 = H - py p - c div 2, y2 = H - py p + c div 2\<rparr>)"

definition patch_messages :: "host \<Rightarrow> int \<Rightarrow> pixel_row list \<Rightarrow> string list" where
  "patch_messages h m dfi =
     List.map_filter (\<lambda>p. snd (snd (patch_estimate h m (src p) (angular_size_of (src p))))) dfi"

section \<open>Thumbnail grid and output files\<close>

definition grid_size :: "string \<Rightarrow> nat \<Rightarrow> nat \<times> nat" where
  "grid_size logo_path n =
     (let mincols = (if logo_path \<noteq> [] then 6 else 5);
          ncols = max mincols (nat \<lfloor>sqrt (real n)\<rfloor>);
          nrows = nat \<lceil>real n / real ncols\<rceil>
      in (nrows, ncols))"

definition savefig_formats :: "string list" where
  "savefig_formats = [''.eps'', ''.jpeg'', ''.jpg'', ''.pdf'', ''.pgf'', ''.png'', ''.ps'', ''.raw'',
     ''.rgba'', ''.svg'', ''.svgz'', ''.tif'', ''.tiff'', ''.webp'']"

definition get_output_filename :: "host \<Rightarrow> string \<Rightarrow> string \<Rightarrow> string" where
  "get_output_filename h output_basename suffix =
     (case splitext h output_basename of (filename, extension) \<Rightarrow>
        if extension = [] then filename @ suffix @ ''.png''
        else if lower extension \<notin> set savefig_formats then output_basename @ suffix @ ''.png''
        else filename @ suffix @ extension)"

definition get_overlay_filename :: "host \<Rightarrow> string \<Rightarrow> string" where
  "get_overlay_filename h output_basename = get_output_filename h output_basename ''_overlay''"

definition get_table_filename :: "host \<Rightarrow> string \<Rightarrow> string" where
  "get_table_filename h output_basename = get_output_filename h output_basename ''_table''"

definition get_combined_filename :: "host \<Rightarrow> string \<Rightarrow> string" where
  "get_combined_filename h output_basename = get_output_filename h output_basename []"

section \<open>The pipeline\<close>

text \<open>
  What a run leaves behind: the count it returns, the annotations it draws, the grid of
  the thumbnail table, the files it saves in the order it saves them, the projection
  diagnostics and the messages it logs. Drawing and saving are calls into the plotting
  and image libraries, assumed to succeed.
\<close>

record run_result =
  found :: nat
  annotations :: "annotation list"
  grid :: "(nat \<times> nat) option"
  saved :: "string list"
  diagnostics :: "wcs_error_entry list"
  logged :: "string list"

text \<open>
  The merged frame of a list of frames that hold no row at all has no row either, and
  the projection step raises on it: on an empty frame \<open>DataFrame.apply\<close> gives back
  no column of positions, so that the assignment of \<open>Pixel_Position\<close>, or the
  selection and the rounding that follow it, fail. Nothing catches the exception. Its
  message is the library's own; one exception stands for it here.
\<close>

definition empty_frame_error :: py_exception where
  "empty_frame_error = Exception ''Pixel_Position: the merged frame has no rows''"

text \<open>
  Steps 3 and 4 and all that follows, on \<open>df_list\<close>. The list is empty only when no
  catalog is selected: a built-in catalog that is selected adds its frame even when the
  frame is empty, and so does the remote query.
\<close>

definition annotate_frames ::
  "host \<Rightarrow> catalogs \<Rightarrow> string \<Rightarrow> string \<Rightarrow> string \<Rightarrow> int \<Rightarrow> int \<Rightarrow> row list list
     \<Rightarrow> py_exception + run_result" where
  "annotate_frames h cs output main_object logo_path W H df_list =
     (if df_list = []
      then Inr \<lparr>found = 0, annotations = [], grid = None, saved = [], diagnostics = [],
                logged = []\<rparr>
      else
        let df = concat df_list
        in if df = [] then Inl empty_frame_error
           else
             let dfi = working_set h cs W H df
             in if length dfi = 0
                then Inr \<lparr>found = 0, annotations = [], grid = None, saved = [],
                          diagnostics = wcs_error_entries h df, logged = []\<rparr>
                else
                  let rows = sort_rows cs dfi;
                      all_patches = map (\<lambda>(i, p). annotate_row h cs main_object W H i p)
                                      (zip [0 ..< length rows] rows)
                  in Inr \<lparr>found = length rows,
                           annotations = all_patches,
                           grid = Some (grid_size logo_path (length all_patches)),
                           saved = [get_overlay_filename h output, get_table_filename h output,
                                    get_combined_filename h output],
                           diagnostics = wcs_error_entries h df,
                           logged = patch_messages h (min_patch_size W H) rows\<rparr>)"

text \<open>
  \<open>annotate_fit\<close> for an image of width \<open>W\<close> and height \<open>H\<close>. The overlay's
  transparency and shape only reach the drawing calls and are left out.
\<close>

definition annotate_fit ::
  "host \<Rightarrow> int \<Rightarrow> int \<Rightarrow> catalogs \<Rightarrow> string \<Rightarrow> string \<Rightarrow> string \<Rightarrow> py_exception + run_result" where
  "annotate_fit h W H cs output main_object logo_path =
     and_then (pix2radec h (real_of_int W / 2) (real_of_int H / 2)) (\<lambda>center.
     and_then (load_frames h cs center) (\<lambda>df_list.
       annotate_frames h cs output main_object logo_path W H df_list))"

section \<open>The configuration file\<close>

definition CONFIG_FILENAME :: string where
  "CONFIG_FILENAME = ''Galaxy_Annotations.conf''"

definition load_config_file ::
  "host \<Rightarrow> py_exception + (string option \<times> pyfloat \<times> string \<times> string option)" where
  "load_config_file h =
     (let config_file_path = path_join h (get_siril_configdir h) CONFIG_FILENAME
      in if isfile h config_file_path
         then and_then (readlines h config_file_path) (\<lambda>lines.
           let logo_path =
                 (if 0 < length lines
                  then (let p = strip (lines ! 0) in if isfile h p then Some p else None)
                  else None)
           in and_then (if 1 < length lines then float_of_str h (strip (lines ! 1))
                        else Inr (Fin (6 / 10))) (\<lambda>overlay_alpha.
                Inr (logo_path, overlay_alpha,
                     (if 2 < length lines then strip (lines ! 2) else ''circle''),
                     (if 3 < length lines then Some (strip (lines ! 2)) else None))))
         else Inr (None, Fin (6 / 10), ''circle'', None))"

section \<open>The angular distance of the specification\<close>

text \<open>
  The specification words the pixel scale as the angular distance between two sky
  positions. This is that distance, the great-circle separation of two positions given
  by right ascension and declination in degrees, in degrees. It is no part of the
  script; the script's own estimate is in \<open>simbad_criteria\<close>.
\<close>

definition spec_angular_distance :: "real \<times> real \<Rightarrow> real \<times> real \<Rightarrow> real" where
  "spec_angular_distance p q =
     (case (p, q) of ((ra1, dec1), (ra2, dec2)) \<Rightarrow>
        let rad = (\<lambda>d. d * pi / 180)
        in arccos (sin (rad dec1) * sin (rad dec2)
                   + cos (rad dec1) * cos (rad dec2) * cos (rad (ra2 - ra1))) * 180 / pi)"

section \<open>Example inputs\<close>

text \<open>
  A host whose projector maps one degree to a hundred pixels on both axes, raises on a
  coordinate that is not finite and returns an infinite position at the pole; its
  catalog directory holds a Messier file of four objects, the first two on the same
  pixel, the third at the pole and the fourth without a right ascension that parses.
\<close>

definition example_messier :: csv_frame where
  "example_messier =
     \<lparr>columns = [''name'', ''ra'', ''dec'', ''diameter''],
      records =
        [\<lparr>csv_name = ''M 1'', csv_ra = Numeric (Fin (5001 / 1000)),
           csv_dec = Numeric (Fin 5), csv_diameter = Numeric (Fin 6)\<rparr>,
         \<lparr>csv_name = ''M 2'', csv_ra = Numeric (Fin (5002 / 1000)),
           csv_dec = Numeric (Fin 5), csv_diameter = NA\<rparr>,
         \<lparr>csv_name = ''M 3'', csv_ra = Numeric (Fin 3),
           csv_dec = Numeric (Fin 90), csv_diameter = NA\<rparr>,
         \<lparr>csv_name = ''M 4'', csv_ra = Other ''n/a'',
           csv_dec = Numeric (Fin 4), csv_diameter = NA\<rparr>]\<rparr>"

definition example_host :: host where
  "example_host =
     \<lparr>radec2pix = (\<lambda>a d. case (a, d) of
                       (Fin x, Fin y) \<Rightarrow>
                         if y = 90 then Inr (PInf, PInf) else Inr (Fin (100 * x), Fin (100 * y))
                     | _ \<Rightarrow> Inl (Exception ''invalid coordinates'')),
      pix2radec = (\<lambda>x y. Inr (x / 100, y / 100)),
      read_csv = (\<lambda>p. if p = ''C:/Program Files/Siril/share/siril/catalogue/messier.csv''
                       then Some (Inr example_messier) else None),
      query_region = (\<lambda>c r m. Inr []),
      path_join = (\<lambda>a b. a @ ''/'' @ b),
      splitext = (\<lambda>p. (p, [])),
      get_siril_configdir = ''cfg'',
      isfile = (\<lambda>p. p = ''cfg/Galaxy_Annotations.conf''),
      readlines = (\<lambda>p. Inr [''nologo.png\<newline>'', ''0.50\<newline>'', ''boxes\<newline>'', ''M,NGC\<newline>'']),
      float_of_str = (\<lambda>s. if s = ''0.50'' then Inr (Fin (1 / 2))
                           else Inl (Exception ''could not convert string to float''))\<rparr>"

definition example_row :: "string \<Rightarrow> string \<Rightarrow> real \<Rightarrow> real \<Rightarrow> pyfloat \<Rightarrow> row" where
  "example_row t n a d g = \<lparr>main_id = n, ra = Fin a, dec = Fin d, TYPE' = t, galdim_majaxis = g\<rparr>"

definition example_pixel_row :: "string \<Rightarrow> real \<Rightarrow> real \<Rightarrow> pixel_row" where
  "example_pixel_row n x y =
     \<lparr>src = example_row ''M'' n (x / 100) (y / 100) NaN, pixel_x = x, pixel_y = y,
      px = py_round x, py = py_round y\<rparr>"

text \<open>The rows that \<open>load_builtin_catalog\<close> reads from the Messier file above.\<close>

definition example_rows :: "row list" where
  "example_rows =
     [example_row ''M'' ''M 1'' (5001 / 1000) 5 (Fin 6),
      example_row ''M'' ''M 2'' (5002 / 1000) 5 NaN,
      example_row ''M'' ''M 3'' 3 90 NaN,
      \<lparr>main_id = ''M 4'', ra = NaN, dec = Fin 4, TYPE' = ''M'', galdim_majaxis = NaN\<rparr>]"

text \<open>The same host on a machine without the catalog directory.\<close>

definition bare_host :: host where
  "bare_host = example_host\<lparr>read_csv := (\<lambda>p. None)\<rparr>"

text \<open>The same host with a projector that is linear for all finite coordinates.\<close>

definition linear_host :: host where
  "linear_host =
     example_host\<lparr>radec2pix := (\<lambda>a d. case (a, d) of
                       (Fin x, Fin y) \<Rightarrow> Inr (Fin (100 * x), Fin (100 * y))
                     | _ \<Rightarrow> Inl (Exception ''invalid coordinates''))\<rparr>"

section \<open>Verified properties\<close>


lemma set_drop_duplicates: "set (drop_duplicates key xs) \<subseteq> set xs"
  by (induction xs) auto

lemma key_set_drop_duplicates: "key ` set (drop_duplicates key xs) = key ` set xs"
proof (induction xs)
  case Nil
  show ?case by simp
next
  case (Cons x xs)
  have "key ` set (filter (\<lambda>y. key y \<noteq> key x) (drop_duplicates key xs))
      = key ` set (drop_duplicates key xs) - {key x}"
    by auto
  with Cons show ?case by auto
qed

lemma distinct_drop_duplicates: "distinct (map key (drop_duplicates key xs))"
proof (induction xs)
  case Nil
  show ?case by simp
next
  case (Cons x xs)
  have "distinct (map key (filter (\<lambda>y. key y \<noteq> key x) (drop_duplicates key xs)))"
    using Cons.IH by (simp add: distinct_map_filter)
  then show ?case by auto
qed

lemma drop_duplicates_distinct_id: "distinct (map key xs) \<Longrightarrow> drop_duplicates key xs = xs"
proof (induction xs)
  case Nil
  show ?case by simp
next
  case (Cons x xs)
  from Cons.prems have "key x \<notin> key ` set xs"
    by simp
  then have "\<And>y. y \<in> set xs \<Longrightarrow> key y \<noteq> key x"
    by (metis imageI)
  then have "filter (\<lambda>y. key y \<noteq> key x) xs = xs"
    by (simp add: filter_id_conv)
  with Cons show ?case by simp
qed

lemma find_filter_implied:
  "(\<And>y. P y \<Longrightarrow> Q y) \<Longrightarrow> find P (filter Q ys) = find P ys"
  by (induction ys) auto

lemma find_drop_duplicates:
  "find (\<lambda>y. key y = k) (drop_duplicates key xs) = find (\<lambda>y. key y = k) xs"
proof (induction xs)
  case Nil
  show ?case by simp
next
  case (Cons x xs)
  show ?case
  proof (cases "key x = k")
    case True
    then show ?thesis by simp
  next
    case False
    then have "find (\<lambda>y. key y = k) (filter (\<lambda>y. key y \<noteq> key x) (drop_duplicates key xs))
        = find (\<lambda>y. key y = k) (drop_duplicates key xs)"
      by (intro find_filter_implied) auto
    with False Cons show ?thesis by simp
  qed
qed

lemma drop_duplicates_idem: "drop_duplicates key (drop_duplicates key xs) = drop_duplicates key xs"
  by (rule drop_duplicates_distinct_id) (rule distinct_drop_duplicates)

lemma to_pixel_row_rounded:
  "to_pixel_row h r = Some p \<Longrightarrow> src p = r \<and> px p = py_round (pixel_x p) \<and> py p = py_round (pixel_y p)"
  by (auto simp: to_pixel_row_def split: prod.splits pyfloat.splits)

lemma finite_rows_rounded:
  "p \<in> set (finite_rows h df) \<Longrightarrow> px p = py_round (pixel_x p) \<and> py p = py_round (pixel_y p)"
proof -
  assume "p \<in> set (finite_rows h df)"
  then obtain r where "to_pixel_row h r = Some p"
    by (auto simp: finite_rows_def List.map_filter_def)
  then show ?thesis
    using to_pixel_row_rounded by blast
qed

lemma working_set_subset:
  "set (working_set h cs W H df) \<subseteq> set (bounds_filter W H (finite_rows h df))"
proof -
  have "set (working_set h cs W H df) \<subseteq> set (type_filter cs (bounds_filter W H (finite_rows h df)))"
    unfolding working_set_def by (rule set_drop_duplicates)
  also have "\<dots> \<subseteq> set (bounds_filter W H (finite_rows h df))"
    by (simp add: type_filter_def)
  finally show ?thesis .
qed


lemma floor_sqrt_bounds:
  fixes n :: nat
  defines "k \<equiv> nat \<lfloor>sqrt (real n)\<rfloor>"
  shows "k * k \<le> n \<and> n < (k + 1) * (k + 1)"
proof -
  have nonneg: "0 \<le> sqrt (real n)" by simp
  then have k_real: "real k = of_int \<lfloor>sqrt (real n)\<rfloor>"
    by (simp add: k_def)
  have le: "real k \<le> sqrt (real n)"
    unfolding k_real by (rule of_int_floor_le)
  have lt: "sqrt (real n) < real k + 1"
    unfolding k_real by linarith
  have "real k * real k \<le> sqrt (real n) * sqrt (real n)"
    using le by (intro mult_mono) auto
  then have "real (k * k) \<le> real n" by simp
  then have a: "k * k \<le> n" by (simp only: of_nat_le_iff)
  have "sqrt (real n) * sqrt (real n) < (real k + 1) * (real k + 1)"
    using lt nonneg by (intro mult_strict_mono) auto
  moreover have "(real k + 1) * (real k + 1) = real ((k + 1) * (k + 1))" by (simp add: algebra_simps)
  ultimately have "real n < real ((k + 1) * (k + 1))" by (simp del: of_nat_mult of_nat_add)
  then have b: "n < (k + 1) * (k + 1)" by (simp only: of_nat_less_iff)
  from a b show ?thesis by simp
qed

lemma ceil_div_bounds:
  fixes n c :: nat
  assumes "0 < c" "0 < n"
  defines "r \<equiv> nat \<lceil>real n / real c\<rceil>"
  shows "n \<le> r * c \<and> (r - 1) * c < n"
proof -
  have pos: "0 < real n / real c" using assms(1,2) by simp
  then have cpos: "0 < \<lceil>real n / real c\<rceil>" by (simp add: ceiling_less_iff less_ceiling_iff)
  then have r_real: "real r = of_int \<lceil>real n / real c\<rceil>" by (simp add: r_def)
  have "real n / real c \<le> real r" unfolding r_real by (rule le_of_int_ceiling)
  then have "real n \<le> real r * real c" using assms(1,2) by (simp add: field_simps)
  then have "real n \<le> real (r * c)" by simp
  then have a: "n \<le> r * c" by (simp only: of_nat_le_iff)
  have r1: "1 \<le> r" using cpos unfolding r_def by linarith
  have "real r - 1 < real n / real c" unfolding r_real by linarith
  then have "(real r - 1) * real c < real n" using assms(1,2) by (simp add: field_simps)
  then have "real ((r - 1) * c) < real n" using r1 by (simp add: of_nat_diff)
  then have b: "(r - 1) * c < n" by (simp only: of_nat_less_iff)
  from a b show ?thesis by simp
qed

lemma floor_sqrt_13: "\<lfloor>sqrt (13::real)\<rfloor> = 3"
proof -
  have "3 \<le> sqrt (13::real)" by (rule real_le_rsqrt) simp
  moreover have "sqrt (13::real) < 4" by (rule real_less_lsqrt) simp_all
  ultimately show ?thesis by (simp add: floor_eq_iff)
qed

lemma grid_13: "grid_size [] 13 = (3, 5)"
proof -
  have "\<lceil>(13::real) / 5\<rceil> = 3" by (simp add: ceiling_eq_iff)
  then show ?thesis by (simp add: grid_size_def floor_sqrt_13 Let_def)
qed

text \<open>
  Claim C6. For a surviving row count \<open>n \<ge> 1\<close> the thumbnail grid has
  \<open>max mincols (floor (sqrt n))\<close> columns, where \<open>mincols\<close> is 6 with a logo and 5
  without, and \<open>ceil (n / ncols)\<close> rows: the column count is the larger of
  \<open>mincols\<close> and the integer \<open>k\<close> with \<open>k * k \<le> n < (k + 1) * (k + 1)\<close>, and the
  row count is the least number of rows of that width that hold \<open>n\<close> cells. Thirteen
  rows without a logo give 3 rows of 5 columns.
\<close>

theorem grid_layout:
  "1 \<le> n \<Longrightarrow>
   (let mincols = (if logo_path \<noteq> [] then 6 else 5);
        nrows = fst (grid_size logo_path n);
        ncols = snd (grid_size logo_path n);
        k = nat \<lfloor>sqrt (real n)\<rfloor>
    in ncols = max mincols k \<and> k * k \<le> n \<and> n < (k + 1) * (k + 1)
       \<and> nrows = nat \<lceil>real n / real ncols\<rceil>
       \<and> n \<le> nrows * ncols \<and> (nrows - 1) * ncols < n)
   \<and> grid_size [] 13 = (3, 5)"
proof -
  assume n: "1 \<le> n"
  define mincols :: nat where "mincols = (if logo_path \<noteq> [] then 6 else 5)"
  define k where "k = nat \<lfloor>sqrt (real n)\<rfloor>"
  define ncols where "ncols = max mincols k"
  define nrows where "nrows = nat \<lceil>real n / real ncols\<rceil>"
  have g: "grid_size logo_path n = (nrows, ncols)"
    by (simp add: grid_size_def Let_def nrows_def ncols_def k_def mincols_def)
  have "0 < ncols" by (simp add: ncols_def mincols_def less_max_iff_disj)
  then have c: "n \<le> nrows * ncols \<and> (nrows - 1) * ncols < n"
    unfolding nrows_def using n by (intro ceil_div_bounds) auto
  have s: "k * k \<le> n \<and> n < (k + 1) * (k + 1)"
    unfolding k_def by (rule floor_sqrt_bounds)
  show ?thesis
    using c s grid_13
    by (simp add: g Let_def mincols_def[symmetric] k_def[symmetric] ncols_def[symmetric] nrows_def[symmetric])
qed

theorem grid_layout_witness:
  "(1::nat) \<le> 13 \<and> fst (grid_size [] 13) = 3 \<and> snd (grid_size [] 13) = 5"
  using grid_layout[of 13 "[]"] by (simp add: Let_def)



lemmas example_simps = example_host_def example_messier_def example_row_def example_pixel_row_def
  py_round_def min_patch_size_def Let_def

text \<open>
  Claim C4. The working set is the deduplication of the filtered rows on the key
  \<open>(px, py)\<close>, the rounded pixel position. Deduplication leaves at most one row per
  key, the row it leaves for a key is the first one of the input with that key, and
  deduplicating a second time changes nothing (the same rows, so the same count and the
  same identifiers).
\<close>

theorem dedup_first_unique_idempotent:
  "working_set h cs W H rows
     = drop_duplicates pixel_key (type_filter cs (bounds_filter W H (finite_rows h rows)))
   \<and> (\<forall>p \<in> set (finite_rows h rows). pixel_key p = (py_round (pixel_x p), py_round (pixel_y p)))
   \<and> distinct (map pixel_key (drop_duplicates pixel_key df))
   \<and> find (\<lambda>p. pixel_key p = k) (drop_duplicates pixel_key df) = find (\<lambda>p. pixel_key p = k) df
   \<and> drop_duplicates pixel_key (drop_duplicates pixel_key df) = drop_duplicates pixel_key df"
proof -
  have "\<forall>p \<in> set (finite_rows h rows). pixel_key p = (py_round (pixel_x p), py_round (pixel_y p))"
    using finite_rows_rounded by (simp add: pixel_key_def)
  then show ?thesis
    by (simp add: working_set_def distinct_drop_duplicates find_drop_duplicates drop_duplicates_idem)
qed

theorem dedup_first_unique_idempotent_witness:
  "drop_duplicates pixel_key
     [example_pixel_row ''a'' (5001 / 10) 500, example_pixel_row ''b'' (5002 / 10) 500,
      example_pixel_row ''c'' 300 400]
   = [example_pixel_row ''a'' (5001 / 10) 500, example_pixel_row ''c'' 300 400]
   \<and> find (\<lambda>p. pixel_key p = (500, 500))
        (drop_duplicates pixel_key
          [example_pixel_row ''a'' (5001 / 10) 500, example_pixel_row ''b'' (5002 / 10) 500,
           example_pixel_row ''c'' 300 400])
      = Some (example_pixel_row ''a'' (5001 / 10) 500)
   \<and> drop_duplicates pixel_key (drop_duplicates pixel_key
          [example_pixel_row ''a'' (5001 / 10) 500, example_pixel_row ''b'' (5002 / 10) 500,
           example_pixel_row ''c'' 300 400])
      = [example_pixel_row ''a'' (5001 / 10) 500, example_pixel_row ''c'' 300 400]"
  using dedup_first_unique_idempotent[of example_host registry 1000 1000 "[]"
      "[example_pixel_row ''a'' (5001 / 10) 500, example_pixel_row ''b'' (5002 / 10) 500,
        example_pixel_row ''c'' 300 400]" "(500, 500)"]
  by (simp add: pixel_key_def example_simps)

text \<open>
  Claim C3. The margin is \<open>round (max W H / 100)\<close>, the pixel columns are the rounded
  positions, and a projected row survives the bounds filter exactly when its rounded
  position lies strictly between the margin and the width (height) less the margin; so
  every row of the working set satisfies these strict inequalities.
\<close>

theorem bounds_filter_strict_margin:
  assumes "p \<in> set (finite_rows h df)"
  shows "min_patch_size W H = py_round (real_of_int (max W H) / 100)
    \<and> px p = py_round (pixel_x p) \<and> py p = py_round (pixel_y p)
    \<and> (p \<in> set (bounds_filter W H (finite_rows h df)) \<longleftrightarrow>
         min_patch_size W H < px p \<and> px p < W - min_patch_size W H
         \<and> min_patch_size W H < py p \<and> py p < H - min_patch_size W H)
    \<and> (p \<in> set (working_set h cs W H df) \<longrightarrow>
         min_patch_size W H < px p \<and> px p < W - min_patch_size W H
         \<and> min_patch_size W H < py p \<and> py p < H - min_patch_size W H)"
proof -
  have r: "px p = py_round (pixel_x p) \<and> py p = py_round (pixel_y p)"
    using assms by (rule finite_rows_rounded)
  have b: "p \<in> set (bounds_filter W H (finite_rows h df)) \<longleftrightarrow>
         min_patch_size W H < px p \<and> px p < W - min_patch_size W H
         \<and> min_patch_size W H < py p \<and> py p < H - min_patch_size W H"
    using assms by (auto simp: bounds_filter_def in_bounds_def)
  have w: "p \<in> set (working_set h cs W H df) \<Longrightarrow> p \<in> set (bounds_filter W H (finite_rows h df))"
    using working_set_subset by blast
  show ?thesis
    using r b w by (simp add: min_patch_size_def)
qed

lemma example_finite_rows:
  "finite_rows example_host [example_row ''M'' ''a'' 5 5 NaN, example_row ''M'' ''b'' 5 (999 / 100) NaN]
   = [example_pixel_row ''a'' 500 500, example_pixel_row ''b'' 500 999]"
  by (simp add: finite_rows_def List.map_filter_def to_pixel_row_def safe_radec2pix_def example_simps)

theorem bounds_filter_strict_margin_witness:
  "example_pixel_row ''a'' 500 500 \<in> set (finite_rows example_host
       [example_row ''M'' ''a'' 5 5 NaN, example_row ''M'' ''b'' 5 (999 / 100) NaN])
   \<and> min_patch_size 1000 1000 = 10
   \<and> px (example_pixel_row ''a'' 500 500) = 500
   \<and> example_pixel_row ''a'' 500 500 \<in> set (bounds_filter 1000 1000 (finite_rows example_host
       [example_row ''M'' ''a'' 5 5 NaN, example_row ''M'' ''b'' 5 (999 / 100) NaN]))
   \<and> example_pixel_row ''b'' 500 999 \<notin> set (bounds_filter 1000 1000 (finite_rows example_host
       [example_row ''M'' ''a'' 5 5 NaN, example_row ''M'' ''b'' 5 (999 / 100) NaN]))"
proof -
  have m: "example_pixel_row ''a'' 500 500 \<in> set (finite_rows example_host
       [example_row ''M'' ''a'' 5 5 NaN, example_row ''M'' ''b'' 5 (999 / 100) NaN])"
    by (simp add: example_finite_rows)
  have n: "example_pixel_row ''b'' 500 999 \<in> set (finite_rows example_host
       [example_row ''M'' ''a'' 5 5 NaN, example_row ''M'' ''b'' 5 (999 / 100) NaN])"
    by (simp add: example_finite_rows)
  have v: "min_patch_size 1000 1000 = 10 \<and> px (example_pixel_row ''a'' 500 500) = 500
      \<and> py (example_pixel_row ''a'' 500 500) = 500 \<and> px (example_pixel_row ''b'' 500 999) = 500
      \<and> py (example_pixel_row ''b'' 500 999) = 999"
    by (simp add: example_simps)
  show ?thesis
    using bounds_filter_strict_margin[OF m, of 1000 1000 registry]
      bounds_filter_strict_margin[OF n, of 1000 1000 registry] m v
    by simp
qed


lemma type_filter_types:
  "p \<in> set (type_filter cs df) \<Longrightarrow> TYPE' (src p) \<in> set (filter_types cs)"
  by (simp add: type_filter_def)

lemma working_set_types:
  "p \<in> set (working_set h cs W H df) \<Longrightarrow> TYPE' (src p) \<in> set (filter_types cs)"
proof -
  assume "p \<in> set (working_set h cs W H df)"
  then have "p \<in> set (type_filter cs (bounds_filter W H (finite_rows h df)))"
    unfolding working_set_def using set_drop_duplicates by fastforce
  then show ?thesis by (rule type_filter_types)
qed

lemma set_sort_rows: "set (sort_rows cs dfi) = strip_main_id ` set dfi"
  by (simp add: sort_rows_def)

lemma length_sort_rows: "length (sort_rows cs dfi) = length dfi"
  by (simp add: sort_rows_def)

lemma ann_row_annotate_row: "ann_row (annotate_row h cs t W H i p) = p"
  by (simp add: annotate_row_def Let_def)

lemma annotations_rows:
  assumes "annotate_frames h cs out t logo W H df_list = Inr res" and "a \<in> set (annotations res)"
  shows "\<exists>p \<in> set (working_set h cs W H (concat df_list)). ann_row a = strip_main_id p"
proof -
  let ?rows = "sort_rows cs (working_set h cs W H (concat df_list))"
  from assms have "a \<in> set (map (\<lambda>(i, p). annotate_row h cs t W H i p)
                             (zip [0 ..< length ?rows] ?rows))"
    by (auto simp: annotate_frames_def Let_def split: if_splits)
  then obtain i q where z: "(i, q) \<in> set (zip [0 ..< length ?rows] ?rows)"
    and a: "a = annotate_row h cs t W H i q"
    by auto
  from z have q: "q \<in> set ?rows"
    by (rule set_zip_rightD)
  from q obtain p where "p \<in> set (working_set h cs W H (concat df_list))" "q = strip_main_id p"
    by (auto simp: set_sort_rows)
  then show ?thesis using a by (auto simp: ann_row_annotate_row)
qed

lemma annotations_types:
  assumes "annotate_frames h cs out t logo W H df_list = Inr res" and "a \<in> set (annotations res)"
  shows "TYPE' (src (ann_row a)) \<in> set (filter_types cs)"
proof -
  from annotations_rows[OF assms] obtain p
    where p: "p \<in> set (working_set h cs W H (concat df_list))" and a: "ann_row a = strip_main_id p"
    by blast
  have "TYPE' (src (ann_row a)) = TYPE' (src p)"
    by (simp add: a strip_main_id_def)
  then show ?thesis using working_set_types[OF p] by simp
qed

lemma registry_filter_types: "filter_types registry = [''M'', ''IC'', ''NGC'']"
  by (simp add: filter_types_def registry_def CatalogEntry_init_def get_selected_def)

lemma registry_simbad_catalogs: "simbad_catalogs registry = []"
  by (simp add: simbad_catalogs_def registry_def CatalogEntry_init_def get_selected_def
      EXCLUDED_SOURCES_def)

lemma registry_checkboxes:
  "\<forall>ke \<in> set registry. checkbox_var (snd ke) = None
      \<and> get_selected (snd ke) = selection_default (snd ke)"
  by (simp add: registry_def CatalogEntry_init_def get_selected_def)

lemma annotate_fit_Inr:
  "annotate_fit h W H cs out t logo = Inr res \<Longrightarrow>
     \<exists>center df_list. pix2radec h (real_of_int W / 2) (real_of_int H / 2) = Inr center
       \<and> load_frames h cs center = Inr df_list
       \<and> annotate_frames h cs out t logo W H df_list = Inr res"
  by (auto simp: annotate_fit_def and_then_def split: sum.splits)

text \<open>
  Claim C10. An entry without a checkbox variable reports its default selection. The
  registry as the constructor builds it has no checkbox variable at all (they only come
  with the widgets of the GUI), so in CLI mode every entry reports its default, the
  enabled catalogs are M, IC and NGC in this order, no remote catalog is selected, the
  frames are the local frames alone (no remote query), and every row of the working set
  and every annotation of a run has one of these three types.
\<close>

theorem cli_selection_defaults:
  "(checkbox_var e = None \<longrightarrow> get_selected e = selection_default e)
   \<and> (\<forall>ke \<in> set registry. checkbox_var (snd ke) = None
         \<and> get_selected (snd ke) = selection_default (snd ke))
   \<and> filter_types registry = [''M'', ''IC'', ''NGC'']
   \<and> simbad_catalogs registry = []
   \<and> load_frames h registry center = Inr (local_frames h registry)
   \<and> (\<forall>p \<in> set (working_set h registry W H df). TYPE' (src p) \<in> {''M'', ''IC'', ''NGC''})
   \<and> (\<forall>res. annotate_fit h W H registry out t logo = Inr res \<longrightarrow>
         (\<forall>a \<in> set (annotations res). TYPE' (src (ann_row a)) \<in> {''M'', ''IC'', ''NGC''}))"
proof -
  have 1: "checkbox_var e = None \<longrightarrow> get_selected e = selection_default e"
    by (simp add: get_selected_def)
  have 2: "load_frames h registry center = Inr (local_frames h registry)"
    by (simp add: load_frames_def registry_simbad_catalogs)
  have 3: "\<forall>p \<in> set (working_set h registry W H df). TYPE' (src p) \<in> {''M'', ''IC'', ''NGC''}"
    using working_set_types[of _ h registry W H df] by (simp add: registry_filter_types)
  have 4: "\<forall>res. annotate_fit h W H registry out t logo = Inr res \<longrightarrow>
         (\<forall>a \<in> set (annotations res). TYPE' (src (ann_row a)) \<in> {''M'', ''IC'', ''NGC''})"
  proof (intro allI impI ballI)
    fix res a
    assume r: "annotate_fit h W H registry out t logo = Inr res" and a: "a \<in> set (annotations res)"
    from annotate_fit_Inr[OF r] obtain df_list
      where "annotate_frames h registry out t logo W H df_list = Inr res" by blast
    from annotations_types[OF this a] have "TYPE' (src (ann_row a)) \<in> set (filter_types registry)" .
    then show "TYPE' (src (ann_row a)) \<in> {''M'', ''IC'', ''NGC''}"
      by (simp add: registry_filter_types)
  qed
  show ?thesis
    using 1 2 3 4 registry_checkboxes registry_filter_types registry_simbad_catalogs by blast
qed


lemma example_local_frames:
  "local_frames example_host registry =
     [example_rows, [], []]"
  by (simp add: local_frames_def catalog_files_def CATALOG_DIR_def registry_def get_selected_def
      CatalogEntry_init_def load_builtin_catalog_def isna_def example_simps example_rows_def)

lemma example_finite_rows_messier:
  "finite_rows example_host example_rows
   = [\<lparr>src = example_row ''M'' ''M 1'' (5001 / 1000) 5 (Fin 6), pixel_x = 5001 / 10,
        pixel_y = 500, px = 500, py = 500\<rparr>,
      \<lparr>src = example_row ''M'' ''M 2'' (5002 / 1000) 5 NaN, pixel_x = 5002 / 10,
        pixel_y = 500, px = 500, py = 500\<rparr>]"
  by (simp add: finite_rows_def List.map_filter_def to_pixel_row_def safe_radec2pix_def example_simps
      example_rows_def)

lemma example_wcs_errors:
  "wcs_error_entries example_host example_rows
   = [(''M 3'', Fin 3, Fin 90, ''radec2pix returned non-finite values''),
      (''M 4'', NaN, Fin 4, ''invalid coordinates'')]"
  by (simp add: wcs_error_entries_def safe_radec2pix_def example_simps example_rows_def)

lemma example_working_set_1000:
  "working_set example_host registry 1000 1000 example_rows
   = [\<lparr>src = example_row ''M'' ''M 1'' (5001 / 1000) 5 (Fin 6), pixel_x = 5001 / 10,
        pixel_y = 500, px = 500, py = 500\<rparr>]"
  unfolding working_set_def example_finite_rows_messier
  by (simp add: bounds_filter_def in_bounds_def type_filter_def registry_filter_types
      pixel_key_def min_patch_size_def py_round_def Let_def example_row_def)

lemma example_working_set_100:
  "working_set example_host registry 100 100 example_rows
   = []"
  unfolding working_set_def example_finite_rows_messier
  by (simp add: bounds_filter_def in_bounds_def type_filter_def registry_filter_types
      pixel_key_def min_patch_size_def py_round_def Let_def example_row_def)


theorem cli_selection_defaults_witness:
  "get_selected (CatalogEntry_init None ''#c8c8c8'' False) = False
   \<and> filter_types registry = [''M'', ''IC'', ''NGC'']
   \<and> load_frames example_host registry (5, 5) = Inr [example_rows, [], []]
   \<and> map (\<lambda>p. TYPE' (src p)) (working_set example_host registry 1000 1000 example_rows) = [''M'']"
  using cli_selection_defaults[of "CatalogEntry_init None ''#c8c8c8'' False" example_host "(5, 5)"
      1000 1000 example_rows "''out''" "''t''" "[]"]
  by (simp add: example_local_frames example_working_set_1000 CatalogEntry_init_def example_row_def)

lemma annotate_frames_no_frames:
  "annotate_frames h cs out t logo W H []
     = Inr \<lparr>found = 0, annotations = [], grid = None, saved = [], diagnostics = [], logged = []\<rparr>"
  by (simp add: annotate_frames_def)

lemma annotate_frames_no_rows:
  assumes "df_list \<noteq> []" and "concat df_list = []"
  shows "annotate_frames h cs out t logo W H df_list = Inl empty_frame_error"
  using assms by (simp add: annotate_frames_def Let_def)

lemma annotate_frames_filtered_out:
  assumes "concat df_list \<noteq> []" and "working_set h cs W H (concat df_list) = []"
  shows "annotate_frames h cs out t logo W H df_list
     = Inr \<lparr>found = 0, annotations = [], grid = None, saved = [],
            diagnostics = wcs_error_entries h (concat df_list), logged = []\<rparr>"
proof -
  from assms(1) have "df_list \<noteq> []" by auto
  then show ?thesis using assms by (simp add: annotate_frames_def Let_def)
qed

lemma working_set_Nil: "working_set h cs W H [] = []"
  by (simp add: working_set_def finite_rows_def List.map_filter_def bounds_filter_def
      type_filter_def)

lemma annotate_frames_nonempty:
  assumes "working_set h cs W H (concat df_list) \<noteq> []"
  shows "\<exists>res. annotate_frames h cs out t logo W H df_list = Inr res
    \<and> found res = length (working_set h cs W H (concat df_list))
    \<and> 0 < found res
    \<and> length (annotations res) = found res
    \<and> saved res
      = [get_overlay_filename h out, get_table_filename h out, get_combined_filename h out]"
proof -
  have c: "concat df_list \<noteq> []"
    using assms by (metis working_set_Nil)
  then have "df_list \<noteq> []" by auto
  then show ?thesis
    using assms c by (simp add: annotate_frames_def Let_def length_sort_rows)
qed

lemma annotate_fit_frames:
  assumes "pix2radec h (real_of_int W / 2) (real_of_int H / 2) = Inr center"
    and "load_frames h cs center = Inr df_list"
  shows "annotate_fit h W H cs out t logo = annotate_frames h cs out t logo W H df_list"
  using assms by (simp add: annotate_fit_def and_then_def)

lemma example_bare_frames: "local_frames bare_host registry = [[], [], []]"
  by (simp add: local_frames_def catalog_files_def CATALOG_DIR_def registry_def get_selected_def
      CatalogEntry_init_def load_builtin_catalog_def bare_host_def example_host_def)

text \<open>
  Claim C9, as the code has it. Once the center of the image is known and the frames are
  loaded: with no frame at all (no catalog selected) the run returns the count 0, draws
  nothing, lays out no grid and saves no file; so it does when the frames hold rows and
  none survives projection, bounds, type filter and deduplication. But when there are
  frames and none of them holds a row (the selected catalogs yield no data) the run
  does not return: it raises. With a working set that is not empty the count is its
  size and the three output files are saved.
\<close>

theorem empty_merged_frame_raises:
  assumes "pix2radec h (real_of_int W / 2) (real_of_int H / 2) = Inr center"
    and "load_frames h cs center = Inr df_list"
  shows "(df_list = [] \<longrightarrow>
            annotate_fit h W H cs out t logo
              = Inr \<lparr>found = 0, annotations = [], grid = None, saved = [], diagnostics = [],
                     logged = []\<rparr>)
     \<and> (df_list \<noteq> [] \<and> (\<forall>df \<in> set df_list. df = []) \<longrightarrow>
            annotate_fit h W H cs out t logo = Inl empty_frame_error)
     \<and> ((\<exists>df \<in> set df_list. df \<noteq> []) \<and> working_set h cs W H (concat df_list) = [] \<longrightarrow>
            annotate_fit h W H cs out t logo
              = Inr \<lparr>found = 0, annotations = [], grid = None, saved = [],
                     diagnostics = wcs_error_entries h (concat df_list), logged = []\<rparr>)
     \<and> (working_set h cs W H (concat df_list) \<noteq> [] \<longrightarrow>
            (\<exists>res. annotate_fit h W H cs out t logo = Inr res
               \<and> found res = length (working_set h cs W H (concat df_list)) \<and> 0 < found res
               \<and> saved res = [get_overlay_filename h out, get_table_filename h out,
                               get_combined_filename h out]))"
proof -
  note r = annotate_fit_frames[OF assms, of out t logo]
  have 1: "df_list = [] \<longrightarrow>
            annotate_fit h W H cs out t logo
              = Inr \<lparr>found = 0, annotations = [], grid = None, saved = [], diagnostics = [],
                     logged = []\<rparr>"
    unfolding r by (simp add: annotate_frames_no_frames)
  have 2: "df_list \<noteq> [] \<and> (\<forall>df \<in> set df_list. df = []) \<longrightarrow>
            annotate_fit h W H cs out t logo = Inl empty_frame_error"
  proof
    assume a: "df_list \<noteq> [] \<and> (\<forall>df \<in> set df_list. df = [])"
    then have "concat df_list = []" by simp
    with a show "annotate_fit h W H cs out t logo = Inl empty_frame_error"
      unfolding r by (simp add: annotate_frames_no_rows)
  qed
  have 3: "(\<exists>df \<in> set df_list. df \<noteq> []) \<and> working_set h cs W H (concat df_list) = [] \<longrightarrow>
            annotate_fit h W H cs out t logo
              = Inr \<lparr>found = 0, annotations = [], grid = None, saved = [],
                     diagnostics = wcs_error_entries h (concat df_list), logged = []\<rparr>"
  proof
    assume a: "(\<exists>df \<in> set df_list. df \<noteq> []) \<and> working_set h cs W H (concat df_list) = []"
    then have "concat df_list \<noteq> []" by simp
    with a show "annotate_fit h W H cs out t logo
              = Inr \<lparr>found = 0, annotations = [], grid = None, saved = [],
                     diagnostics = wcs_error_entries h (concat df_list), logged = []\<rparr>"
      unfolding r by (simp add: annotate_frames_filtered_out)
  qed
  have 4: "working_set h cs W H (concat df_list) \<noteq> [] \<longrightarrow>
            (\<exists>res. annotate_fit h W H cs out t logo = Inr res
               \<and> found res = length (working_set h cs W H (concat df_list)) \<and> 0 < found res
               \<and> saved res = [get_overlay_filename h out, get_table_filename h out,
                               get_combined_filename h out])"
    unfolding r using annotate_frames_nonempty[of h cs W H df_list out t logo] by blast
  show ?thesis using 1 2 3 4 by blast
qed

theorem empty_merged_frame_raises_witness:
  "pix2radec bare_host (real_of_int 1000 / 2) (real_of_int 1000 / 2) = Inr (5, 5)
   \<and> load_frames bare_host registry (5, 5) = Inr [[], [], []]
   \<and> annotate_fit bare_host 1000 1000 registry ''out'' ''t'' [] = Inl empty_frame_error
   \<and> load_frames example_host registry (1 / 2, 1 / 2) = Inr [example_rows, [], []]
   \<and> working_set example_host registry 100 100 (concat [example_rows, [], []]) = []
   \<and> (\<exists>res. annotate_fit example_host 100 100 registry ''out'' ''t'' [] = Inr res
         \<and> found res = 0 \<and> annotations res = [] \<and> grid res = None \<and> saved res = [])"
proof -
  have cb: "pix2radec bare_host (real_of_int 1000 / 2) (real_of_int 1000 / 2) = Inr (5, 5)"
    by (simp add: bare_host_def example_host_def)
  have lb: "load_frames bare_host registry (5, 5) = Inr [[], [], []]"
    by (simp add: load_frames_def registry_simbad_catalogs example_bare_frames)
  have c: "pix2radec example_host (real_of_int 100 / 2) (real_of_int 100 / 2) = Inr (1 / 2, 1 / 2)"
    by (simp add: example_host_def)
  have l: "load_frames example_host registry (1 / 2, 1 / 2) = Inr [example_rows, [], []]"
    by (simp add: load_frames_def registry_simbad_catalogs example_local_frames)
  have w: "working_set example_host registry 100 100 (concat [example_rows, [], []]) = []"
    by (simp add: example_working_set_100)
  have n: "\<exists>df \<in> set [example_rows, [], []]. df \<noteq> []"
    by (simp add: example_rows_def)
  have b: "annotate_fit bare_host 1000 1000 registry ''out'' ''t'' [] = Inl empty_frame_error"
    using empty_merged_frame_raises[OF cb lb, of "''out''" "''t''" "[]"] by simp
  have e: "annotate_fit example_host 100 100 registry ''out'' ''t'' []
      = Inr \<lparr>found = 0, annotations = [], grid = None, saved = [],
             diagnostics = wcs_error_entries example_host (concat [example_rows, [], []]),
             logged = []\<rparr>"
    using empty_merged_frame_raises[OF c l, of "''out''" "''t''" "[]"] n w by blast
  show ?thesis
    unfolding e using cb lb b l w by simp
qed


lemma safe_radec2pix_failure:
  assumes "(\<exists>e. radec2pix h (ra r) (dec r) = Inl e)
    \<or> (\<exists>x y. radec2pix h (ra r) (dec r) = Inr (x, y) \<and> \<not> (isfinite x \<and> isfinite y))"
  shows "\<exists>msg. safe_radec2pix h r = ((NaN, NaN), [(main_id r, ra r, dec r, msg)])"
  using assms by (auto simp: safe_radec2pix_def)

lemma failed_row_not_finite:
  assumes "\<exists>msg. safe_radec2pix h r = ((NaN, NaN), [(main_id r, ra r, dec r, msg)])"
    and "p \<in> set (finite_rows h df)"
  shows "src p \<noteq> r"
proof
  assume eq: "src p = r"
  from assms(2) obtain r' where r': "to_pixel_row h r' = Some p"
    by (auto simp: finite_rows_def List.map_filter_def)
  then have "src p = r'" using to_pixel_row_rounded by blast
  with eq r' have "to_pixel_row h r = Some p" by simp
  moreover from assms(1) have "to_pixel_row h r = None"
    by (auto simp: to_pixel_row_def)
  ultimately show False by simp
qed

lemma working_set_finite_rows:
  "set (working_set h cs W H df) \<subseteq> set (finite_rows h df)"
  using working_set_subset[of h cs W H df] by (auto simp: bounds_filter_def)

lemma failed_row_diagnostic:
  assumes "safe_radec2pix h r = ((NaN, NaN), [(main_id r, ra r, dec r, msg)])" and "r \<in> set df"
  shows "(main_id r, ra r, dec r, msg) \<in> set (wcs_error_entries h df)"
proof -
  have "(main_id r, ra r, dec r, msg) \<in> set (snd (safe_radec2pix h r))"
    using assms(1) by simp
  then show ?thesis
    unfolding wcs_error_entries_def using assms(2) by auto
qed

lemma load_frames_projector:
  "load_frames (h\<lparr>radec2pix := q\<rparr>) cs center = load_frames h cs center"
  by (simp add: load_frames_def local_frames_def catalog_files_def load_builtin_catalog_def
      simbad_frame_def simbad_criteria_def)

lemma annotate_frames_isl:
  "isl (annotate_frames h cs out t logo W H df_list) = (df_list \<noteq> [] \<and> concat df_list = [])"
  by (simp add: annotate_frames_def Let_def)

lemma annotate_frames_isl_projector:
  "isl (annotate_frames (h\<lparr>radec2pix := q\<rparr>) cs out t logo W H df_list)
     = isl (annotate_frames h cs out t logo W H df_list)"
  by (simp only: annotate_frames_isl)

lemma annotate_fit_isl:
  "isl (annotate_fit h W H cs out t logo)
     = (isl (pix2radec h (real_of_int W / 2) (real_of_int H / 2))
        \<or> (\<exists>center. pix2radec h (real_of_int W / 2) (real_of_int H / 2) = Inr center
              \<and> (isl (load_frames h cs center)
                  \<or> (\<exists>df_list. load_frames h cs center = Inr df_list
                        \<and> isl (annotate_frames h cs out t logo W H df_list)))))"
  by (auto simp: annotate_fit_def and_then_def split: sum.splits)

lemma annotate_fit_isl_projector:
  "isl (annotate_fit (h\<lparr>radec2pix := q\<rparr>) W H cs out t logo) = isl (annotate_fit h W H cs out t logo)"
  by (simp add: annotate_fit_isl load_frames_projector annotate_frames_isl_projector)

lemma diagnostics_annotate_frames:
  assumes "concat df_list \<noteq> []"
  shows "\<exists>res. annotate_frames h cs out t logo W H df_list = Inr res
     \<and> diagnostics res = wcs_error_entries h (concat df_list)"
proof -
  from assms have "df_list \<noteq> []" by auto
  then show ?thesis using assms by (simp add: annotate_frames_def Let_def)
qed

text \<open>
  Claim C1. A row of the loaded frames whose projection raises or is not finite gets the
  position (NaN, NaN), is no row of the projected frame nor of the working set, and is
  recorded with its identifier, coordinates and message among the diagnostics of the
  run; the run returns normally. Whether a run raises does not depend on the projector
  at all: replacing it by any other leaves the outcome an exception or a result as it
  was.
\<close>

theorem projection_failure_excludes_row:
  assumes "pix2radec h (real_of_int W / 2) (real_of_int H / 2) = Inr center"
    and "load_frames h cs center = Inr df_list"
    and "r \<in> set (concat df_list)"
    and "(\<exists>e. radec2pix h (ra r) (dec r) = Inl e)
      \<or> (\<exists>x y. radec2pix h (ra r) (dec r) = Inr (x, y) \<and> \<not> (isfinite x \<and> isfinite y))"
  shows "fst (safe_radec2pix h r) = (NaN, NaN)
     \<and> (\<forall>p \<in> set (finite_rows h (concat df_list)). src p \<noteq> r)
     \<and> (\<forall>p \<in> set (working_set h cs W H (concat df_list)). src p \<noteq> r)
     \<and> (\<exists>res msg. annotate_fit h W H cs out t logo = Inr res
           \<and> (main_id r, ra r, dec r, msg) \<in> set (diagnostics res))
     \<and> (\<forall>q. isl (annotate_fit (h\<lparr>radec2pix := q\<rparr>) W H cs out t logo)
             = isl (annotate_fit h W H cs out t logo))"
proof -
  from safe_radec2pix_failure[OF assms(4)] obtain msg
    where s: "safe_radec2pix h r = ((NaN, NaN), [(main_id r, ra r, dec r, msg)])" by blast
  have 1: "fst (safe_radec2pix h r) = (NaN, NaN)" by (simp add: s)
  have 2: "\<forall>p \<in> set (finite_rows h (concat df_list)). src p \<noteq> r"
    using failed_row_not_finite s by blast
  have 3: "\<forall>p \<in> set (working_set h cs W H (concat df_list)). src p \<noteq> r"
    using 2 working_set_finite_rows by blast
  have ne: "concat df_list \<noteq> []" using assms(3) by (metis empty_iff empty_set)
  have r: "annotate_fit h W H cs out t logo = annotate_frames h cs out t logo W H df_list"
    using assms(1,2) by (simp add: annotate_fit_def and_then_def)
  from diagnostics_annotate_frames[OF ne, of h cs out t logo W H] obtain res
    where res: "annotate_frames h cs out t logo W H df_list = Inr res"
      and d: "diagnostics res = wcs_error_entries h (concat df_list)" by blast
  have "(main_id r, ra r, dec r, msg) \<in> set (diagnostics res)"
    using failed_row_diagnostic[OF s assms(3)] by (simp add: d)
  with r res have 4: "\<exists>res msg. annotate_fit h W H cs out t logo = Inr res
           \<and> (main_id r, ra r, dec r, msg) \<in> set (diagnostics res)" by auto
  show ?thesis
    using 1 2 3 4 annotate_fit_isl_projector by blast
qed

theorem projection_failure_excludes_row_witness:
  "radec2pix example_host (Fin 3) (Fin 90) = Inr (PInf, PInf)
   \<and> radec2pix example_host NaN (Fin 4) = Inl (Exception ''invalid coordinates'')
   \<and> (\<exists>res msg. annotate_fit example_host 1000 1000 registry ''out'' ''t'' [] = Inr res
         \<and> (''M 3'', Fin 3, Fin 90, msg) \<in> set (diagnostics res))
   \<and> (\<exists>res msg. annotate_fit example_host 1000 1000 registry ''out'' ''t'' [] = Inr res
         \<and> (''M 4'', NaN, Fin 4, msg) \<in> set (diagnostics res))
   \<and> map (\<lambda>p. main_id (src p)) (working_set example_host registry 1000 1000 example_rows) = [''M 1'']"
proof -
  have c: "pix2radec example_host (real_of_int 1000 / 2) (real_of_int 1000 / 2) = Inr (5, 5)"
    by (simp add: example_host_def)
  have l: "load_frames example_host registry (5, 5) = Inr [example_rows, [], []]"
    by (simp add: load_frames_def registry_simbad_catalogs example_local_frames)
  have m3: "example_row ''M'' ''M 3'' 3 90 NaN \<in> set (concat [example_rows, [], []])"
    by (simp add: example_rows_def)
  have m4: "\<lparr>main_id = ''M 4'', ra = NaN, dec = Fin 4, TYPE' = ''M'', galdim_majaxis = NaN\<rparr>
      \<in> set (concat [example_rows, [], []])"
    by (simp add: example_rows_def)
  have p3: "radec2pix example_host (Fin 3) (Fin 90) = Inr (PInf, PInf)"
    by (simp add: example_host_def)
  have p4: "radec2pix example_host NaN (Fin 4) = Inl (Exception ''invalid coordinates'')"
    by (simp add: example_host_def)
  have f3: "(\<exists>e. radec2pix example_host (ra (example_row ''M'' ''M 3'' 3 90 NaN))
        (dec (example_row ''M'' ''M 3'' 3 90 NaN)) = Inl e)
      \<or> (\<exists>x y. radec2pix example_host (ra (example_row ''M'' ''M 3'' 3 90 NaN))
        (dec (example_row ''M'' ''M 3'' 3 90 NaN)) = Inr (x, y) \<and> \<not> (isfinite x \<and> isfinite y))"
    using p3 by (simp add: example_row_def)
  have f4: "(\<exists>e. radec2pix example_host
        (ra \<lparr>main_id = ''M 4'', ra = NaN, dec = Fin 4, TYPE' = ''M'', galdim_majaxis = NaN\<rparr>)
        (dec \<lparr>main_id = ''M 4'', ra = NaN, dec = Fin 4, TYPE' = ''M'', galdim_majaxis = NaN\<rparr>) = Inl e)
      \<or> (\<exists>x y. radec2pix example_host
        (ra \<lparr>main_id = ''M 4'', ra = NaN, dec = Fin 4, TYPE' = ''M'', galdim_majaxis = NaN\<rparr>)
        (dec \<lparr>main_id = ''M 4'', ra = NaN, dec = Fin 4, TYPE' = ''M'', galdim_majaxis = NaN\<rparr>)
          = Inr (x, y) \<and> \<not> (isfinite x \<and> isfinite y))"
    using p4 by simp
  have w: "map (\<lambda>p. main_id (src p)) (working_set example_host registry 1000 1000 example_rows)
      = [''M 1'']"
    by (simp add: example_working_set_1000 example_row_def)
  show ?thesis
    using projection_failure_excludes_row[OF c l m3 f3, of "''out''" "''t''" "[]"]
      projection_failure_excludes_row[OF c l m4 f4, of "''out''" "''t''" "[]"] p3 p4 w
    by (simp add: example_row_def)
qed


text \<open>
  Claim C7, as the code has it. When the projector answers for the pixels (0, 0) and
  (1, 1), the criteria of the remote query are defined, the minimum size in arcminutes
  is 5 times the pixel scale in arcminutes per pixel, and the pixel scale is 60 times
  the larger of the two absolute differences, in right ascension and in declination
  (degrees), between the sky positions of the two pixels. The query is issued with this
  minimum size.
\<close>

theorem minsize_from_pixel_scale:
  assumes "pix2radec h 0 0 = Inr (ra0, dec0)" and "pix2radec h 1 1 = Inr (ra1, dec1)"
  shows "\<exists>q. simbad_criteria h center = Inr q
     \<and> minsize_pixels = 5
     \<and> minsize_arcmin q = 5 * pixsize_arcmin q
     \<and> pixsize_arcmin q = 60 * max \<bar>ra1 - ra0\<bar> \<bar>dec1 - dec0\<bar>
     \<and> radius_deg q = max \<bar>fst center - ra0\<bar> \<bar>snd center - dec0\<bar>
     \<and> simbad_frame h center =
         and_then (query_region h center (radius_deg q) (5 * pixsize_arcmin q)) (\<lambda>result.
           Inr (filter (\<lambda>r. TYPE' r \<notin> set (map fst (catalog_files h))) (map simbad_row result)))"
  using assms
  by (cases center) (simp add: simbad_criteria_def simbad_frame_def and_then_def Let_def
      minsize_pixels_def)

theorem minsize_from_pixel_scale_witness:
  "pix2radec example_host 0 0 = Inr (0, 0) \<and> pix2radec example_host 1 1 = Inr (1 / 100, 1 / 100)
   \<and> (\<exists>q. simbad_criteria example_host (5, 5) = Inr q
         \<and> minsize_arcmin q = 3 \<and> pixsize_arcmin q = 6 / 10 \<and> radius_deg q = 5)"
proof -
  have a: "pix2radec example_host 0 0 = Inr (0, 0)"
    by (simp add: example_host_def)
  have b: "pix2radec example_host 1 1 = Inr (1 / 100, 1 / 100)"
    by (simp add: example_host_def)
  show ?thesis
    using minsize_from_pixel_scale[OF a b, of "(5, 5)"] a b by (auto simp: minsize_pixels_def)
qed

lemma sin_lower_bound:
  assumes "0 \<le> (a::real)"
  shows "a - a ^ 3 / 6 \<le> sin a"
proof -
  have b: "\<bar>sin a - (\<Sum>m<Suc (Suc (Suc 0)). sin_coeff m * a ^ m)\<bar>
      \<le> inverse (fact (Suc (Suc (Suc 0)))) * \<bar>a\<bar> ^ Suc (Suc (Suc 0))"
    by (rule Maclaurin_sin_bound)
  have s: "(\<Sum>m<Suc (Suc (Suc 0)). sin_coeff m * a ^ m) = a"
    by (simp add: sin_coeff_Suc cos_coeff_Suc)
  have f: "inverse (fact (Suc (Suc (Suc 0)))) * \<bar>a\<bar> ^ Suc (Suc (Suc 0)) = a ^ 3 / 6"
    using assms by (simp add: power3_eq_cube)
  from b have "\<bar>sin a - a\<bar> \<le> a ^ 3 / 6"
    unfolding s f .
  then show ?thesis by linarith
qed

lemma cos_sq_less:
  assumes "0 < (a::real)" "a \<le> 1 / 2"
  shows "cos a * cos a < cos (4 * a / 3)"
proof -
  have a2: "a ^ 2 \<le> 1 / 4"
    using power_mono[of a "1 / 2" 2] assms by (simp add: power2_eq_square)
  have "a ^ 3 = a * a ^ 2" by (simp add: power3_eq_cube power2_eq_square)
  also have "\<dots> \<le> a * (1 / 4)"
    using a2 assms(1) by (intro mult_left_mono) simp_all
  finally have a3: "a ^ 3 \<le> a / 4" by simp
  have lo: "23 / 24 * a \<le> sin a"
    using sin_lower_bound[of a] a3 assms(1) by linarith
  have "(23 / 24 * a) ^ 2 \<le> (sin a) ^ 2"
    using lo assms(1) by (intro power_mono) simp_all
  then have s: "529 / 576 * a ^ 2 \<le> (sin a) ^ 2"
    by (simp add: power_mult_distrib power2_eq_square)
  have c: "cos a * cos a = 1 - (sin a) ^ 2"
    using sin_cos_squared_add[of a] by (simp add: power2_eq_square)
  have u: "cos (4 * a / 3) = 1 - 2 * (sin (2 * a / 3)) ^ 2"
    using cos_double_sin[of "2 * a / 3"] by simp
  have "\<bar>sin (2 * a / 3)\<bar> \<le> \<bar>2 * a / 3\<bar>" by (rule abs_sin_x_le_abs_x)
  then have "(sin (2 * a / 3)) ^ 2 \<le> (2 * a / 3) ^ 2"
    by (simp only: abs_le_square_iff)
  then have t: "(sin (2 * a / 3)) ^ 2 \<le> 4 / 9 * a ^ 2"
    by (simp add: power_divide power_mult_distrib)
  have p: "0 < a ^ 2" using assms(1) by simp
  show ?thesis
    unfolding c u using s t p by linarith
qed

lemma spec_distance_example:
  "1 / 75 < spec_angular_distance (0, 0) (1 / 100, 1 / 100)"
proof -
  define a where "a = pi / 18000"
  have p: "pi < 4" by (rule pi_less_4)
  have a: "0 < a" "a \<le> 1 / 2"
    using p pi_gt_zero by (simp_all add: a_def)
  have d: "spec_angular_distance (0, 0) (1 / 100, 1 / 100) = arccos (cos a * cos a) * 180 / pi"
    by (simp add: spec_angular_distance_def a_def)
  have "arccos (cos (4 * a / 3)) < arccos (cos a * cos a)"
  proof (rule arccos_less_arccos)
    have "0 \<le> cos a * cos a" by simp
    then show "- 1 \<le> cos a * cos a" by linarith
    show "cos a * cos a < cos (4 * a / 3)" by (rule cos_sq_less[OF a])
    show "cos (4 * a / 3) \<le> 1" by simp
  qed
  moreover have "arccos (cos (4 * a / 3)) = 4 * a / 3"
    using a pi_ge_two by (intro arccos_cos) simp_all
  ultimately have l: "4 * a / 3 < arccos (cos a * cos a)" by simp
  have e: "(4 * a / 3) * 180 / pi = 1 / 75" by (simp add: a_def)
  have "(4 * a / 3) * 180 / pi < arccos (cos a * cos a) * 180 / pi"
    using l by (simp add: divide_strict_right_mono)
  then show ?thesis
    unfolding d e .
qed

text \<open>
  Against claim C7 as stated: the pixel scale of the code is not the angular distance
  between the two sky positions. For the example host the pixels (0, 0) and (1, 1) are
  at (0, 0) and (0.01, 0.01) degrees: the code's pixel scale is 0.6 arcminutes and its
  minimum size 3 arcminutes, while the angular distance of the two positions is more
  than 0.8 arcminutes and 5 times it more than 4.
\<close>

theorem minsize_from_pixel_scale_counterexample:
  "pix2radec example_host 0 0 = Inr (0, 0) \<and> pix2radec example_host 1 1 = Inr (1 / 100, 1 / 100)
   \<and> simbad_criteria example_host (5, 5)
       = Inr \<lparr>radius_deg = 5, pixsize_arcmin = 6 / 10, minsize_arcmin = 3\<rparr>
   \<and> 8 / 10 < 60 * spec_angular_distance (0, 0) (1 / 100, 1 / 100)
   \<and> 4 < 5 * (60 * spec_angular_distance (0, 0) (1 / 100, 1 / 100))"
proof -
  have a: "pix2radec example_host 0 0 = Inr (0, 0)"
    by (simp add: example_host_def)
  have b: "pix2radec example_host 1 1 = Inr (1 / 100, 1 / 100)"
    by (simp add: example_host_def)
  have q: "simbad_criteria example_host (5, 5)
       = Inr \<lparr>radius_deg = 5, pixsize_arcmin = 6 / 10, minsize_arcmin = 3\<rparr>"
    by (simp add: simbad_criteria_def and_then_def a b Let_def minsize_pixels_def)
  have d: "8 / 10 < 60 * spec_angular_distance (0, 0) (1 / 100, 1 / 100)"
    using spec_distance_example by linarith
  have m: "4 < 5 * (60 * spec_angular_distance (0, 0) (1 / 100, 1 / 100))"
    using spec_distance_example by linarith
  show ?thesis using a b q d m by blast
qed

text \<open>
  Claim C8, as the code has it. Without a configuration file the defaults are returned:
  no logo, alpha 0.6, type circle, no selection. With a file whose second line (if
  there is one) parses as a float, the logo is the stripped first line only when it
  names an existing file (no logo otherwise, or without a first line), alpha is the parse
  of the stripped second line (0.6 without it), the type is the stripped third line
  (circle without it), and there is no selection with fewer than four lines. What the
  selection is with four lines or more is not stated here.
\<close>

theorem load_config_file_values:
  assumes "cfg = path_join h (get_siril_configdir h) CONFIG_FILENAME"
  shows "(\<not> isfile h cfg \<longrightarrow> load_config_file h = Inr (None, Fin (6 / 10), ''circle'', None))
    \<and> (isfile h cfg \<and> readlines h cfg = Inr lines
         \<and> (1 < length lines \<longrightarrow> float_of_str h (strip (lines ! 1)) = Inr alpha) \<longrightarrow>
        (\<exists>sel. load_config_file h =
           Inr (if 0 < length lines \<and> isfile h (strip (lines ! 0))
                then Some (strip (lines ! 0)) else None,
                if 1 < length lines then alpha else Fin (6 / 10),
                if 2 < length lines then strip (lines ! 2) else ''circle'',
                sel)
           \<and> (length lines \<le> 3 \<longrightarrow> sel = None)))"
  using assms by (auto simp: load_config_file_def and_then_def Let_def)

lemma example_load_config_file:
  "load_config_file example_host = Inr (None, Fin (1 / 2), ''boxes'', Some ''boxes'')"
  by (simp add: load_config_file_def and_then_def Let_def example_host_def CONFIG_FILENAME_def
      strip_def isspace_def)

theorem load_config_file_values_witness:
  "isfile example_host ''cfg/Galaxy_Annotations.conf''
   \<and> readlines example_host ''cfg/Galaxy_Annotations.conf''
       = Inr [''nologo.png\<newline>'', ''0.50\<newline>'', ''boxes\<newline>'', ''M,NGC\<newline>'']
   \<and> float_of_str example_host ''0.50'' = Inr (Fin (1 / 2))
   \<and> (\<exists>sel. load_config_file example_host = Inr (None, Fin (1 / 2), ''boxes'', sel))
   \<and> load_config_file (example_host\<lparr>isfile := \<lambda>p. False\<rparr>)
       = Inr (None, Fin (6 / 10), ''circle'', None)"
proof -
  have p: "''cfg/Galaxy_Annotations.conf''
      = path_join example_host (get_siril_configdir example_host) CONFIG_FILENAME"
    by (simp add: example_host_def CONFIG_FILENAME_def)
  have q: "''cfg/Galaxy_Annotations.conf''
      = path_join (example_host\<lparr>isfile := \<lambda>p. False\<rparr>)
          (get_siril_configdir (example_host\<lparr>isfile := \<lambda>p. False\<rparr>)) CONFIG_FILENAME"
    by (simp add: example_host_def CONFIG_FILENAME_def)
  have i: "isfile example_host ''cfg/Galaxy_Annotations.conf''"
    by (simp add: example_host_def)
  have r: "readlines example_host ''cfg/Galaxy_Annotations.conf''
       = Inr [''nologo.png\<newline>'', ''0.50\<newline>'', ''boxes\<newline>'', ''M,NGC\<newline>'']"
    by (simp add: example_host_def)
  have f: "float_of_str example_host ''0.50'' = Inr (Fin (1 / 2))"
    by (simp add: example_host_def)
  have s: "strip ''0.50\<newline>'' = ''0.50'' \<and> strip ''boxes\<newline>'' = ''boxes''
      \<and> strip ''nologo.png\<newline>'' = ''nologo.png''"
    by (simp add: strip_def isspace_def)
  have n: "\<not> isfile example_host ''nologo.png''"
    by (simp add: example_host_def)
  show ?thesis
    using load_config_file_values[OF p,
        of "[''nologo.png\<newline>'', ''0.50\<newline>'', ''boxes\<newline>'', ''M,NGC\<newline>'']" "Fin (1 / 2)"]
      load_config_file_values[OF q, of "[]" "Fin 0"] i r f s n
    by simp
qed

text \<open>
  Against claim C8 as stated: a configuration file of four lines whose first line names
  no existing file. The code returns no logo path, and the stripped third line where
  the claim has the fourth.
\<close>

theorem load_config_file_counterexample:
  "isfile example_host (path_join example_host (get_siril_configdir example_host) CONFIG_FILENAME)
   \<and> readlines example_host (path_join example_host (get_siril_configdir example_host) CONFIG_FILENAME)
       = Inr [''nologo.png\<newline>'', ''0.50\<newline>'', ''boxes\<newline>'', ''M,NGC\<newline>'']
   \<and> float_of_str example_host (strip ''0.50\<newline>'') = Inr (Fin (1 / 2))
   \<and> load_config_file example_host = Inr (None, Fin (1 / 2), ''boxes'', Some ''boxes'')
   \<and> load_config_file example_host
       \<noteq> Inr (Some (strip ''nologo.png\<newline>''), Fin (1 / 2), strip ''boxes\<newline>'',
              Some (strip ''M,NGC\<newline>''))"
  by (simp add: example_load_config_file)
    (simp add: example_host_def CONFIG_FILENAME_def strip_def isspace_def)


lemma hypot_real_0_left: "hypot_real 0 y = \<bar>y\<bar>"
  by (simp add: hypot_real_def)

lemma hypot_real_0_right: "hypot_real x 0 = \<bar>x\<bar>"
  by (simp add: hypot_real_def)




lemma wrap_longitude_in_range:
  assumes "0 \<le> x" "x < 360"
  shows "wrap_longitude (Fin x) = Fin x"
proof -
  have "\<lfloor>x / 360\<rfloor> = 0" using assms by (simp add: floor_eq_iff)
  then show ?thesis by simp
qed

lemma SkyCoord_in_range:
  assumes "0 \<le> x" "x < 360" "- 90 \<le> y" "y \<le> 90"
  shows "SkyCoord (Fin x) (Fin y) = Inr (Fin x, Fin y)"
  using assms wrap_longitude_in_range[of x]
  by (simp add: SkyCoord_def and_then_def del: wrap_longitude.simps)

text \<open>The mean of the two pixel distances for a projector that is linear with the
  coefficients \<open>cxa\<close>, \<open>cxd\<close>, \<open>cya\<close>, \<open>cyd\<close>, at the angular size \<open>s\<close> in arcminutes.\<close>

lemma wcs_patch_linear:
  assumes r: "ra r = Fin a" "dec r = Fin d"
    and s: "0 < s"
    and range: "0 \<le> a - s / 120" "a + s / 120 < 360" "- 90 \<le> d - s / 120" "d + s / 120 \<le> 90"
    and lin: "\<forall>x y. radec2pix h (Fin x) (Fin y)
        = Inr (Fin (x0 + cxa * x + cxd * y), Fin (y0 + cya * x + cyd * y))"
  shows "wcs_patch h r (Fin s) =
     Inr (py_round ((hypot_real (cxd * (s / 60)) (cyd * (s / 60))
                     + hypot_real (cxa * (s / 60)) (cya * (s / 60))) / 2 * 2),
          (hypot_real (cxd * (s / 60)) (cyd * (s / 60))
             + hypot_real (cxa * (s / 60)) (cya * (s / 60))) / 2)"
proof -
  have h: "s / 2 / 60 = s / 120" by simp
  have t: "SkyCoord (Fin a) (Fin (d + s / 120)) = Inr (Fin a, Fin (d + s / 120))"
    using range s by (intro SkyCoord_in_range) auto
  have b: "SkyCoord (Fin a) (Fin (d - s / 120)) = Inr (Fin a, Fin (d - s / 120))"
    using range s by (intro SkyCoord_in_range) auto
  have l: "SkyCoord (Fin (a - s / 120)) (Fin d) = Inr (Fin (a - s / 120), Fin d)"
    using range s by (intro SkyCoord_in_range) auto
  have g: "SkyCoord (Fin (a + s / 120)) (Fin d) = Inr (Fin (a + s / 120), Fin d)"
    using range s by (intro SkyCoord_in_range) auto
  have e1: "x0 + cxa * a + cxd * (d + s / 120) - (x0 + cxa * a + cxd * (d - s / 120)) = cxd * (s / 60)"
    by (simp add: algebra_simps)
  have e2: "y0 + cya * a + cyd * (d + s / 120) - (y0 + cya * a + cyd * (d - s / 120)) = cyd * (s / 60)"
    by (simp add: algebra_simps)
  have e3: "x0 + cxa * (a + s / 120) + cxd * d - (x0 + cxa * (a - s / 120) + cxd * d) = cxa * (s / 60)"
    by (simp add: algebra_simps)
  have e4: "y0 + cya * (a + s / 120) + cyd * d - (y0 + cya * (a - s / 120) + cyd * d) = cya * (s / 60)"
    by (simp add: algebra_simps)
  show ?thesis
    unfolding wcs_patch_def Let_def r
    by (simp only: fdiv_pos.simps fadd.simps fsub_def fneg.simps h t b l g and_then_def
        sum.case fst_conv snd_conv lin[rule_format] prod.case hypot.simps fmul_pos.simps
        int_round.simps pyfloat.case minus_real_def[symmetric] e1 e2 e3 e4)
qed


lemma linear_host_radec2pix:
  "radec2pix linear_host (Fin x) (Fin y) = Inr (Fin (0 + 100 * x + 0 * y), Fin (0 + 0 * x + 100 * y))"
  by (simp add: linear_host_def example_host_def)







text \<open>
  Claim C2, as the code has it. For a row of type LEDA whose angular size is not missing
  and exceeds 1.8 arcminutes, and whose identifier is not the title of the run, the
  patch size and the diameter in pixels both equal the minimum patch size, whatever the
  projector and the catalogs are; so for every annotation of such a row.
\<close>

theorem leda_override_unless_main_object:
  assumes "TYPE' r = ''LEDA''"
    and "\<not> isnan (galdim_majaxis r)"
    and "fgt (galdim_majaxis r) (18 / 10)"
    and "main_id r \<noteq> main_object"
  shows "patch_size (row_style h cs main_object m r) = m
     \<and> patch_diameter_pix (row_style h cs main_object m r) = real_of_int m
     \<and> (src p = r \<longrightarrow>
          patch_size (ann_style (annotate_row h cs main_object W H i p)) = min_patch_size W H
          \<and> patch_diameter_pix (ann_style (annotate_row h cs main_object W H i p))
              = real_of_int (min_patch_size W H))"
proof -
  have s: "\<And>m'. patch_size (row_style h cs main_object m' r) = m'
      \<and> patch_diameter_pix (row_style h cs main_object m' r) = real_of_int m'"
    using assms by (simp add: row_style_def type_style_def split: prod.splits)
  show ?thesis
    using s[of m] s[of "min_patch_size W H"] by (simp add: annotate_row_def Let_def)
qed

lemma leda_wcs_patch:
  "wcs_patch linear_host (example_row ''LEDA'' n 5 5 (Fin 5)) (Fin 5) = Inr (17, 25 / 3)"
proof -
  have r: "ra (example_row ''LEDA'' n 5 5 (Fin 5)) = Fin 5"
      "dec (example_row ''LEDA'' n 5 5 (Fin 5)) = Fin 5"
    by (simp_all add: example_row_def)
  have l: "\<forall>x y. radec2pix linear_host (Fin x) (Fin y)
      = Inr (Fin (0 + 100 * x + 0 * y), Fin (0 + 0 * x + 100 * y))"
    using linear_host_radec2pix by blast
  have v: "py_round (50 / 3) = 17" by (simp add: py_round_def Let_def)
  show ?thesis
    using wcs_patch_linear[OF r, of 5 linear_host 0 100 0 0 0 100, OF _ _ _ _ _ l]
    by (simp add: hypot_real_0_left hypot_real_0_right v)
qed

lemma leda_row_style:
  "patch_size (row_style linear_host registry t 10 (example_row ''LEDA'' ''LEDA1'' 5 5 (Fin 5)))
     = (if t = ''LEDA1'' then 17 else 10)"
proof -
  have a: "angular_size_of (example_row ''LEDA'' ''LEDA1'' 5 5 (Fin 5)) = Fin 5"
    by (simp add: angular_size_of_def example_row_def)
  have e: "patch_estimate linear_host 10 (example_row ''LEDA'' ''LEDA1'' 5 5 (Fin 5)) (Fin 5)
      = (17, 25 / 3, None)"
    by (simp add: patch_estimate_def leda_wcs_patch)
  show ?thesis
    unfolding row_style_def a e by (simp add: type_style_def example_row_def)
qed

theorem leda_override_unless_main_object_witness:
  "TYPE' (example_row ''LEDA'' ''LEDA1'' 5 5 (Fin 5)) = ''LEDA''
   \<and> fgt (galdim_majaxis (example_row ''LEDA'' ''LEDA1'' 5 5 (Fin 5))) (18 / 10)
   \<and> patch_size (row_style linear_host registry ''M 1'' 10
        (example_row ''LEDA'' ''LEDA1'' 5 5 (Fin 5))) = 10
   \<and> patch_diameter_pix (row_style linear_host registry ''M 1'' 10
        (example_row ''LEDA'' ''LEDA1'' 5 5 (Fin 5))) = 10"
  using leda_override_unless_main_object[of "example_row ''LEDA'' ''LEDA1'' 5 5 (Fin 5)" "''M 1''"
      linear_host registry 10 "example_pixel_row ''a'' 500 500" 1000 1000 0]
  by (simp add: example_row_def)

text \<open>
  Against claim C2 as stated: a LEDA row of 5 arcminutes whose identifier is the title
  of the run, in an image of 1000 by 1000 pixels. The branch for the main object comes
  first in the chain, the override is not reached, and the patch size stays 17 where the
  minimum is 10.
\<close>

theorem leda_override_counterexample:
  "TYPE' (example_row ''LEDA'' ''LEDA1'' 5 5 (Fin 5)) = ''LEDA''
   \<and> \<not> isnan (galdim_majaxis (example_row ''LEDA'' ''LEDA1'' 5 5 (Fin 5)))
   \<and> fgt (galdim_majaxis (example_row ''LEDA'' ''LEDA1'' 5 5 (Fin 5))) (18 / 10)
   \<and> min_patch_size 1000 1000 = 10
   \<and> patch_size (ann_style (annotate_row linear_host registry ''LEDA1'' 1000 1000 0
        \<lparr>src = example_row ''LEDA'' ''LEDA1'' 5 5 (Fin 5), pixel_x = 500, pixel_y = 500,
          px = 500, py = 500\<rparr>)) = 17
   \<and> patch_size (ann_style (annotate_row linear_host registry ''LEDA1'' 1000 1000 0
        \<lparr>src = example_row ''LEDA'' ''LEDA1'' 5 5 (Fin 5), pixel_x = 500, pixel_y = 500,
          px = 500, py = 500\<rparr>)) \<noteq> min_patch_size 1000 1000"
proof -
  have m: "min_patch_size 1000 1000 = 10"
    by (simp add: min_patch_size_def py_round_def Let_def)
  have p: "patch_size (ann_style (annotate_row linear_host registry ''LEDA1'' 1000 1000 0
        \<lparr>src = example_row ''LEDA'' ''LEDA1'' 5 5 (Fin 5), pixel_x = 500, pixel_y = 500,
          px = 500, py = 500\<rparr>)) = 17"
    by (simp add: annotate_row_def Let_def m leda_row_style)
  show ?thesis
    using m p by (simp add: example_row_def)
qed

end
